theory Spec2Isabelle
  imports Main "HOL-Library.Sublist"
begin

section \<open>JavaScript values used by the deployment engine\<close>

text \<open>
  Strings are byte lists. A property that may be \<open>null\<close> or \<open>undefined\<close> is an
  \<open>option\<close>; JavaScript truthiness is written out where the source tests a value
  (\<open>null\<close>, \<open>undefined\<close>, the empty string and the number 0 are falsy).
\<close>

definition truthy_str :: "string option \<Rightarrow> bool" where
  "truthy_str v = (case v of None \<Rightarrow> False | Some s \<Rightarrow> s \<noteq> [])"

definition truthy_num :: "nat option \<Rightarrow> bool" where
  "truthy_num v = (case v of None \<Rightarrow> False | Some n \<Rightarrow> n \<noteq> 0)"

text \<open>\<open>a || b\<close> on an optional string and on an optional number.\<close>

definition or_str :: "string option \<Rightarrow> string \<Rightarrow> string" where
  "or_str v d = (if truthy_str v then the v else d)"

definition or_num :: "nat option \<Rightarrow> nat \<Rightarrow> nat" where
  "or_num v d = (if truthy_num v then the v else d)"

text \<open>
  \<open>String.prototype.toLowerCase\<close> on ASCII text: only A to Z change. The names it is
  applied to (environment variables, framework names) are taken to be ASCII.
\<close>

definition lower_char :: "char \<Rightarrow> char" where
  "lower_char c =
     (case map_of (zip ''ABCDEFGHIJKLMNOPQRSTUVWXYZ'' ''abcdefghijklmnopqrstuvwxyz'') c of
        Some l \<Rightarrow> l
      | None \<Rightarrow> c)"

definition toLowerCase :: "string \<Rightarrow> string" where
  "toLowerCase s = map lower_char s"

text \<open>\<open>String.prototype.includes\<close>: the pattern starts at some position of the text.\<close>

fun str_includes :: "string \<Rightarrow> string \<Rightarrow> bool" where
  "str_includes [] p = (p = [])"
| "str_includes (c # cs) p = (prefix p (c # cs) \<or> str_includes cs p)"

text \<open>\<open>Array.prototype.indexOf\<close>; \<open>None\<close> stands for the result -1.\<close>

fun indexOf :: "'a list \<Rightarrow> 'a \<Rightarrow> nat option" where
  "indexOf [] x = None"
| "indexOf (y # ys) x =
     (if y = x then Some 0 else (case indexOf ys x of None \<Rightarrow> None | Some i \<Rightarrow> Some (Suc i)))"

text \<open>Decimal rendering of a non-negative integer, as a template literal prints it.\<close>

definition digit_char :: "nat \<Rightarrow> char" where
  "digit_char d = ''0123456789'' ! d"

function show_nat :: "nat \<Rightarrow> string" where
  "show_nat n = (if n < 10 then [digit_char n] else show_nat (n div 10) @ [digit_char (n mod 10)])"
  by pat_completeness auto
termination
  by (relation "measure id") auto

declare show_nat.simps [simp del]

section \<open>InfrastructureManager.identifySecrets\<close>

definition secretPatterns :: "string list" where
  "secretPatterns = [''password'', ''secret'', ''key'', ''token'', ''api'']"

definition identifySecrets :: "string list \<Rightarrow> string list" where
  "identifySecrets envVars =
     filter (\<lambda>varName. list_ex (\<lambda>pattern. str_includes (toLowerCase varName) pattern) secretPatterns)
       envVars"

section \<open>DeploymentService.calculateProgress\<close>

definition stages :: "string list" where
  "stages = [''analyzed'', ''deploying'', ''deployed'', ''failed'']"

text \<open>
  \<open>Math.round(p / q)\<close> for non-negative integers \<open>p\<close> and \<open>q > 0\<close>: the nearest
  integer, halves rounded up. The quotients the source forms (100/3, 200/3, 300/3) are
  far from a half, so the floating-point quotient rounds as the exact one does.
\<close>

definition math_round_div :: "nat \<Rightarrow> nat \<Rightarrow> nat" where
  "math_round_div p q = (2 * p + q) div (2 * q)"

text \<open>\<open>calculateProgress\<close> reads its argument at the property \<open>status\<close> only.\<close>

definition calculateProgress :: "string \<Rightarrow> nat" where
  "calculateProgress status =
     (case indexOf stages status of
        None \<Rightarrow> 0
      | Some currentStageIndex \<Rightarrow>
          if status = ''failed'' then 100
          else math_round_div ((currentStageIndex + 1) * 100) (length stages - 1))"

section \<open>Errors and the ambient state\<close>

text \<open>
  Every \<open>throw\<close> of the source is a value. \<open>TypeError\<close> is what the engine raises
  (calling a non-function, a non-string path segment); \<open>Error\<close> carries the message
  of a \<open>new Error(...)\<close>; \<open>StrategyDeterminationFailed e\<close> is the error that
  \<open>determineDeploymentStrategy\<close> builds from a caught error \<open>e\<close>.
\<close>

datatype js_error = TypeError | Error string | StrategyDeterminationFailed js_error

text \<open>
  What the code reads from outside its arguments: the clock and the random source.
\<close>

record world =
  now_iso :: string  \<comment> \<open>\<open>new Date().toISOString()\<close>\<close>
  rand36 :: string  \<comment> \<open>\<open>Math.random().toString(36).substring(2, 15)\<close>\<close>
  rand255 :: "nat \<times> nat \<times> nat \<times> nat"  \<comment> \<open>four draws of \<open>Math.floor(Math.random() * 255)\<close>\<close>

section \<open>Collaborator records\<close>

text \<open>
  \<open>CodeAnalysis\<close> as \<open>RepositoryAnalyzer.analyzeCodebase\<close> builds it and
  \<open>IntentAnalysis\<close> as \<open>NLPProcessor.processDeploymentDescription\<close> builds it.
  \<open>ca_dependencies\<close> holds the keys of the \<open>dependencies\<close> object.
\<close>

record code_analysis =
  ca_language :: "string option"
  ca_framework :: "string option"
  ca_appType :: "string option"
  ca_port :: "nat option"
  ca_dependencies :: "string list option"
  ca_buildCommands :: "string list"
  ca_startCommands :: "string list"
  ca_environmentVariables :: "string list"
  ca_databaseRequirements :: "string list"
  ca_dockerized :: bool
  ca_staticFiles :: bool

record nlp_analysis =
  nlp_cloudProvider :: "string option"
  nlp_deploymentType :: "string option"
  nlp_environment :: string
  nlp_scalingRequirements :: string
  nlp_estimatedTraffic :: string
  nlp_databaseNeeded :: bool
  nlp_storageNeeded :: bool
  nlp_customDomain :: bool
  nlp_https :: bool
  nlp_monitoring :: bool
  nlp_requirements :: "string list"

section \<open>InfrastructureManager: the strategy engine\<close>

record strategy_infrastructure =
  si_type :: string
  si_services :: "string list"
  si_estimated_cost :: string
  si_scalability :: string

text \<open>
  The strategy object. \<open>s_infrastructure = None\<close> is the initial empty object; the
  property \<open>configuration\<close> stays the empty object throughout and is left out.
\<close>

record strategy =
  s_type :: string
  s_reasoning :: "string list"
  s_infrastructure :: "strategy_infrastructure option"
  s_estimated_cost :: string
  s_complexity :: string

definition shouldUseServerless :: "code_analysis \<Rightarrow> nlp_analysis \<Rightarrow> bool" where
  "shouldUseServerless codeAnalysis nlpAnalysis =
     (let serverlessFrameworks = [''flask'', ''fastapi'', ''express''];
          hasStatelessArchitecture = \<not> List.member (ca_databaseRequirements codeAnalysis) ''sqlite'';
          lowComplexity = (case ca_dependencies codeAnalysis of
                             None \<Rightarrow> False
                           | Some ks \<Rightarrow> length ks < 10)
      in (case ca_framework codeAnalysis of
            None \<Rightarrow> False
          | Some f \<Rightarrow> List.member serverlessFrameworks f)
         \<and> hasStatelessArchitecture \<and> lowComplexity
         \<and> nlp_estimatedTraffic nlpAnalysis \<noteq> ''high'')"

definition shouldUseContainer :: "code_analysis \<Rightarrow> nlp_analysis \<Rightarrow> bool" where
  "shouldUseContainer codeAnalysis nlpAnalysis =
     (ca_dockerized codeAnalysis
      \<or> length (ca_databaseRequirements codeAnalysis) > 0
      \<or> nlp_scalingRequirements nlpAnalysis = ''high''
      \<or> (case ca_framework codeAnalysis of
            None \<Rightarrow> False
          | Some f \<Rightarrow> List.member [''django'', ''spring-boot'', ''laravel''] f))"

definition shouldUseKubernetes :: "code_analysis \<Rightarrow> nlp_analysis \<Rightarrow> bool" where
  "shouldUseKubernetes codeAnalysis nlpAnalysis =
     (nlp_estimatedTraffic nlpAnalysis = ''high''
      \<or> nlp_scalingRequirements nlpAnalysis = ''high''
      \<or> length (ca_databaseRequirements codeAnalysis) > 1
      \<or> List.member (nlp_requirements nlpAnalysis) ''high-availability'')"

text \<open>The five detail generators; each overwrites \<open>infrastructure\<close> and \<open>complexity\<close>.\<close>

definition generateStaticStrategy :: "strategy \<Rightarrow> strategy" where
  "generateStaticStrategy strategy =
     strategy\<lparr>s_infrastructure := Some \<lparr>si_type = ''cdn'', si_services = [''s3'', ''cloudfront''],
                   si_estimated_cost = ''very_low'', si_scalability = ''excellent''\<rparr>,
               s_complexity := ''low''\<rparr>"

definition generateServerlessStrategy :: "strategy \<Rightarrow> strategy" where
  "generateServerlessStrategy strategy =
     strategy\<lparr>s_infrastructure := Some \<lparr>si_type = ''serverless'',
                   si_services = [''lambda'', ''api_gateway''],
                   si_estimated_cost = ''low'', si_scalability = ''auto''\<rparr>,
               s_complexity := ''medium''\<rparr>"

definition generateContainerStrategy :: "strategy \<Rightarrow> strategy" where
  "generateContainerStrategy strategy =
     strategy\<lparr>s_infrastructure := Some \<lparr>si_type = ''container'',
                   si_services = [''ecs'', ''fargate'', ''alb''],
                   si_estimated_cost = ''medium'', si_scalability = ''good''\<rparr>,
               s_complexity := ''medium''\<rparr>"

definition generateVMStrategy :: "strategy \<Rightarrow> strategy" where
  "generateVMStrategy strategy =
     strategy\<lparr>s_infrastructure := Some \<lparr>si_type = ''vm'', si_services = [''ec2'', ''elb''],
                   si_estimated_cost = ''medium'', si_scalability = ''manual''\<rparr>,
               s_complexity := ''medium''\<rparr>"

definition generateKubernetesStrategy :: "strategy \<Rightarrow> strategy" where
  "generateKubernetesStrategy strategy =
     strategy\<lparr>s_infrastructure := Some \<lparr>si_type = ''kubernetes'', si_services = [''eks'', ''alb''],
                   si_estimated_cost = ''high'', si_scalability = ''excellent''\<rparr>,
               s_complexity := ''high''\<rparr>"

text \<open>
  \<open>this.deploymentStrategies[strategy.type]\<close> reads a property of an object literal,
  so a name that is not one of the five own keys is looked up on \<open>Object.prototype\<close>.
  \<open>__proto__\<close> yields the prototype object itself, which has no \<open>call\<close> method;
  the other inherited members are functions.
\<close>

datatype member =
    Own "strategy \<Rightarrow> strategy"
  | InheritedFunction string
  | InheritedObject
  | Undefined

definition object_prototype_functions :: "string list" where
  "object_prototype_functions =
     [''constructor'', ''__defineGetter__'', ''__defineSetter__'', ''hasOwnProperty'',
      ''__lookupGetter__'', ''__lookupSetter__'', ''isPrototypeOf'', ''propertyIsEnumerable'',
      ''toString'', ''valueOf'', ''toLocaleString'']"

definition deploymentStrategies :: "string \<Rightarrow> member" where
  "deploymentStrategies k =
     (if k = ''static'' then Own generateStaticStrategy
      else if k = ''serverless'' then Own generateServerlessStrategy
      else if k = ''container'' then Own generateContainerStrategy
      else if k = ''vm'' then Own generateVMStrategy
      else if k = ''kubernetes'' then Own generateKubernetesStrategy
      else if k = ''__proto__'' then InheritedObject
      else if List.member object_prototype_functions k then InheritedFunction k
      else Undefined)"

text \<open>
  \<open>generator.call(this, strategy, codeAnalysis, nlpAnalysis)\<close>. Of the inherited
  functions, \<open>__defineGetter__\<close> and \<open>__defineSetter__\<close> throw a TypeError because
  their second argument (the code analysis) is not callable; the others return without
  touching the strategy.
\<close>

definition generateStrategyDetails :: "strategy \<Rightarrow> js_error + strategy" where
  "generateStrategyDetails strategy =
     (case deploymentStrategies (s_type strategy) of
        Undefined \<Rightarrow> Inr strategy
      | Own generator \<Rightarrow> Inr (generator strategy)
      | InheritedObject \<Rightarrow> Inl TypeError
      | InheritedFunction k \<Rightarrow>
          if k = ''__defineGetter__'' \<or> k = ''__defineSetter__'' then Inl TypeError
          else Inr strategy)"

text \<open>
  \<open>determineDeploymentStrategy\<close>; the third property of its argument, the raw
  description, is never read. The \<open>catch\<close> wraps whatever was thrown.
\<close>

definition determineDeploymentStrategy :: "code_analysis \<Rightarrow> nlp_analysis \<Rightarrow> js_error + strategy" where
  "determineDeploymentStrategy codeAnalysis nlpAnalysis =
     (let strategy = \<lparr>s_type = ''vm'', s_reasoning = [], s_infrastructure = None,
                       s_estimated_cost = ''low'', s_complexity = ''medium''\<rparr>;
          strategy =
            (if truthy_str (nlp_deploymentType nlpAnalysis) then
               strategy\<lparr>s_type := the (nlp_deploymentType nlpAnalysis),
                         s_reasoning := s_reasoning strategy @
                           [''User requested '' @ the (nlp_deploymentType nlpAnalysis) @ '' deployment'']\<rparr>
             else if ca_appType codeAnalysis = Some ''static''
                     \<or> (ca_staticFiles codeAnalysis \<and> \<not> truthy_str (ca_appType codeAnalysis)) then
               strategy\<lparr>s_type := ''static'',
                         s_reasoning := s_reasoning strategy @
                           [''Static files detected - optimal for CDN deployment'']\<rparr>
             else if shouldUseServerless codeAnalysis nlpAnalysis then
               strategy\<lparr>s_type := ''serverless'',
                         s_reasoning := s_reasoning strategy @ [''Suitable for serverless architecture'']\<rparr>
             else if ca_dockerized codeAnalysis \<or> shouldUseContainer codeAnalysis nlpAnalysis then
               strategy\<lparr>s_type := ''container'',
                         s_reasoning := s_reasoning strategy @
                           [''Application is containerized or suitable for containers'']\<rparr>
             else if shouldUseKubernetes codeAnalysis nlpAnalysis then
               strategy\<lparr>s_type := ''kubernetes'',
                         s_reasoning := s_reasoning strategy @
                           [''Complex application requiring orchestration'']\<rparr>
             else
               strategy\<lparr>s_type := ''vm'',
                         s_reasoning := s_reasoning strategy @
                           [''Standard VM deployment for flexibility'']\<rparr>)
      in case generateStrategyDetails strategy of
           Inl e \<Rightarrow> Inl (StrategyDeterminationFailed e)
         | Inr s \<Rightarrow> Inr s)"

definition strategy_types :: "string list" where
  "strategy_types = [''static'', ''serverless'', ''container'', ''vm'', ''kubernetes'']"

section \<open>The deployment record\<close>

text \<open>
  Terraform's structured outputs: a name is mapped to the \<open>value\<close> property of its
  entry (\<open>None\<close> when the entry has no value).
\<close>

type_synonym tf_outputs = "string \<rightharpoonup> string option"

text \<open>
  The \<open>steps\<close> array holds two shapes of entry: the timeline entries that
  \<open>updateDeploymentStatus\<close> appends and the display steps that
  \<open>generateDeploymentSteps\<close> builds.
\<close>

datatype step =
    StatusStep string string string "string option"
      \<comment> \<open>timestamp, status, message, error\<close>
  | UiStep string string string string "string list"
      \<comment> \<open>id, title, description, status, details\<close>

text \<open>
  The value of a record's \<open>infrastructure\<close> property: the object that
  \<open>applyInfrastructure\<close> returns (outputs and the reported URL), or the bare outputs
  that status reconstruction stores.
\<close>

datatype infrastructure_value =
    ApplyResult tf_outputs "string option"
  | BareOutputs tf_outputs

text \<open>The object that \<open>deployToInfrastructure\<close> returns.\<close>

record deployment_result =
  dr_deploymentId :: string
  dr_status :: string
  dr_publicUrl :: string
  dr_deploymentSteps :: "(string \<times> string) list"  \<comment> \<open>step name and status\<close>
  dr_startTime :: string
  dr_endTime :: string

type_synonym addr = nat

text \<open>
  The final result of a chat deployment refers to the analysis and deployment objects
  (by address) and carries the chat response and a fresh display step list.
\<close>

record final_result =
  fr_analysis :: addr
  fr_deployment :: addr
  fr_chatResponse :: string
  fr_steps :: "step list"

text \<open>
  One in-memory deployment object. Only \<open>deploymentId\<close> and \<open>status\<close> are set by
  every path that creates one; every other property may be missing.
\<close>

record deployment =
  d_deploymentId :: string
  d_status :: string
  d_timestamp :: "string option"
  d_message :: "string option"
  d_repositoryUrl :: "string option"
  d_description :: "string option"
  d_codeAnalysis :: "code_analysis option"
  d_nlpAnalysis :: "nlp_analysis option"
  d_deploymentStrategy :: "strategy option"
  d_codebasePath :: "string option"
  d_steps :: "step list option"
  d_currentStep :: "string option"
  d_lastUpdated :: "string option"
  d_deploymentStarted :: "string option"
  d_deploymentCompleted :: "string option"
  d_deploymentFailed :: "string option"
  d_infrastructure :: "infrastructure_value option"
  d_deployment :: "deployment_result option"
  d_publicUrl :: "string option"
  d_instructions :: "string list option"
  d_result :: "final_result option"
  d_error :: "string option"
  d_reconstructed :: bool

text \<open>The empty object \<open>{}\<close> with the two properties a caller then sets.\<close>

definition new_deployment :: "string \<Rightarrow> string \<Rightarrow> deployment" where
  "new_deployment deploymentId status =
     \<lparr>d_deploymentId = deploymentId, d_status = status, d_timestamp = None, d_message = None,
      d_repositoryUrl = None, d_description = None, d_codeAnalysis = None, d_nlpAnalysis = None,
      d_deploymentStrategy = None, d_codebasePath = None, d_steps = None, d_currentStep = None,
      d_lastUpdated = None, d_deploymentStarted = None, d_deploymentCompleted = None,
      d_deploymentFailed = None, d_infrastructure = None, d_deployment = None, d_publicUrl = None,
      d_instructions = None, d_result = None, d_error = None, d_reconstructed = False\<rparr>"

section \<open>InfrastructureManager: the configuration assembler\<close>

record application_config =
  app_name :: string
  app_type :: "string option"
  app_framework :: "string option"
  app_language :: "string option"
  app_port :: nat
  app_buildCommands :: "string list"
  app_startCommands :: "string list"

record environment_config =
  env_variables :: "string list"
  env_secrets :: "string list"

text \<open>
  The configuration object. The properties \<open>infrastructure\<close>, \<open>networking\<close>,
  \<open>security\<close>, \<open>monitoring\<close>, \<open>database\<close> and \<open>storage\<close> are read by neither
  the template generator nor the URL derivation and are left out; building them does
  not throw. \<open>dc_port\<close> is the top-level property \<open>port\<close> that the URL derivation
  reads: the object literal of \<open>generateDeploymentConfig\<close> has \<open>appPort\<close> and
  \<open>application.port\<close> but no key \<open>port\<close>. The properties that the template
  generator guards with \<open>||\<close> are optional.
\<close>

record deployment_config =
  dc_deploymentId :: string
  dc_cloudProvider :: string
  dc_strategy :: strategy
  dc_repositoryUrl :: "string option"
  dc_description :: string
  dc_appName :: "string option"
  dc_appType :: "string option"
  dc_framework :: "string option"
  dc_language :: "string option"
  dc_appPort :: "nat option"
  dc_application :: application_config
  dc_environment :: "environment_config option"
  dc_port :: "nat option"

text \<open>
  \<open>generateDeploymentConfig({analysis, deploymentId})\<close>: \<open>analysis\<close> is a deployment
  object. Reading a property of a missing \<open>nlpAnalysis\<close>, \<open>codeAnalysis\<close> or
  \<open>deploymentStrategy\<close> throws a TypeError, which the \<open>catch\<close> rethrows.
\<close>

definition generateDeploymentConfig :: "deployment \<Rightarrow> string \<Rightarrow> js_error + deployment_config" where
  "generateDeploymentConfig analysis deploymentId =
     (case (d_codeAnalysis analysis, d_nlpAnalysis analysis, d_deploymentStrategy analysis) of
        (Some codeAnalysis, Some nlpAnalysis, Some deploymentStrategy) \<Rightarrow>
          Inr \<lparr>dc_deploymentId = deploymentId,
               dc_cloudProvider = or_str (nlp_cloudProvider nlpAnalysis) ''aws'',
               dc_strategy = deploymentStrategy,
               dc_repositoryUrl =
                 Some (or_str (d_repositoryUrl analysis) ''https://github.com/Arvo-AI/hello_world''),
               dc_description = or_str (d_description analysis) [],
               dc_appName = Some (''app-'' @ take 8 deploymentId),
               dc_appType = Some (or_str (ca_appType codeAnalysis) ''python''),
               dc_framework = Some (or_str (ca_framework codeAnalysis) ''flask''),
               dc_language = Some (or_str (ca_language codeAnalysis) ''python''),
               dc_appPort = Some (or_num (ca_port codeAnalysis) 8080),
               dc_application =
                 \<lparr>app_name = ''app-'' @ take 8 deploymentId,
                  app_type = ca_appType codeAnalysis,
                  app_framework = ca_framework codeAnalysis,
                  app_language = ca_language codeAnalysis,
                  app_port = or_num (ca_port codeAnalysis) 8080,
                  app_buildCommands = ca_buildCommands codeAnalysis,
                  app_startCommands = ca_startCommands codeAnalysis\<rparr>,
               dc_environment =
                 Some \<lparr>env_variables = ca_environmentVariables codeAnalysis,
                       env_secrets = identifySecrets (ca_environmentVariables codeAnalysis)\<rparr>,
               dc_port = None\<rparr>
      | _ \<Rightarrow> Inl TypeError)"

section \<open>InfrastructureManager.generatePublicUrl\<close>

text \<open>
  The first argument as the function reads it: three optional entries with a
  \<open>value\<close> each, and the optional properties \<open>region\<close> and \<open>type\<close>.
\<close>

record infrastructure_obj =
  io_application_url :: "string option option"
  io_instance_public_ip :: "string option option"
  io_instance_public_dns :: "string option option"
  io_region :: "string option"
  io_type :: "string option"

text \<open>\<open>x && x.value\<close> is truthy: the entry exists and its value is a non-empty string.\<close>

definition has_value :: "string option option \<Rightarrow> bool" where
  "has_value e = (case e of None \<Rightarrow> False | Some v \<Rightarrow> truthy_str v)"

definition generatePublicUrl :: "world \<Rightarrow> infrastructure_obj \<Rightarrow> deployment_config \<Rightarrow> string" where
  "generatePublicUrl w infrastructure deploymentConfig =
     (if has_value (io_application_url infrastructure) then
        the (the (io_application_url infrastructure))
      else if has_value (io_instance_public_ip infrastructure) then
        (let port = or_num (dc_port deploymentConfig) 8080
         in ''http://'' @ the (the (io_instance_public_ip infrastructure)) @ '':'' @ show_nat port)
      else if has_value (io_instance_public_dns infrastructure) then
        (let port = or_num (dc_port deploymentConfig) 8080
         in ''http://'' @ the (the (io_instance_public_dns infrastructure)) @ '':'' @ show_nat port)
      else
        (let region = or_str (io_region infrastructure) ''us-east-1''
         in if io_type infrastructure = Some ''static'' then
              ''https://d'' @ rand36 w @ ''.cloudfront.net''
            else if io_type infrastructure = Some ''serverless'' then
              ''https://'' @ rand36 w @ ''.execute-api.'' @ region @ ''.amazonaws.com/prod''
            else
              (let port = or_num (dc_port deploymentConfig) 8080
               in case rand255 w of (a, b, c, d) \<Rightarrow>
                    ''http://ec2-'' @ show_nat a @ ''-'' @ show_nat b @ ''-'' @ show_nat c @ ''-''
                      @ show_nat d @ ''.'' @ region @ ''.compute.amazonaws.com:'' @ show_nat port)))"

section \<open>RepositoryAnalyzer.detectPort\<close>

definition defaultPorts :: "(string \<times> nat) list" where
  "defaultPorts =
     [(''node-express'', 3000), (''next-js'', 3000), (''react'', 3000), (''flask'', 5000),
      (''django'', 8000), (''fastapi'', 8000), (''spring-boot'', 8080), (''go'', 8080),
      (''static'', 80)]"

text \<open>
  The value left in \<open>analysis.port\<close>: a number, or a member inherited from
  \<open>Object.prototype\<close> when the application type happens to name one.
\<close>

datatype port_value = PortNumber nat | PortInherited string

text \<open>
  \<open>detectPort\<close>. The first argument is what the pattern loop left in
  \<open>analysis.port\<close> (\<open>None\<close>: no pattern matched, or \<open>parseInt\<close> gave NaN); the
  second is \<open>analysis.appType\<close>, \<open>None\<close> for \<open>null\<close>.
\<close>

definition detectPort :: "nat option \<Rightarrow> string option \<Rightarrow> port_value" where
  "detectPort parsed appType =
     (if truthy_num parsed then PortNumber (the parsed)
      else (let k = (case appType of None \<Rightarrow> ''null'' | Some t \<Rightarrow> t)
            in case map_of defaultPorts k of
                 Some p \<Rightarrow> PortNumber p
               | None \<Rightarrow>
                   if k = ''__proto__'' \<or> List.member object_prototype_functions k
                   then PortInherited k else PortNumber 8080))"

text \<open>
  The application types of the inspector: \<open>analyzeCodebase\<close> starts with
  \<open>unknown\<close> and \<open>detectApplicationType\<close> assigns one of the other literals.
\<close>

definition inspector_appTypes :: "string list" where
  "inspector_appTypes =
     [''unknown'', ''node-express'', ''next-js'', ''react'', ''vue'', ''node'', ''django'',
      ''flask'', ''fastapi'', ''python'', ''spring-boot'', ''java'', ''go'', ''laravel'', ''php'',
      ''rails'', ''ruby'', ''static'']"

text \<open>
  \<open>detectPort\<close> stores its result in \<open>analysis.port\<close>, and the analysis is handed on
  as it is. The record holds a number there; the result is \<open>None\<close> when the value
  stored is an inherited member, which the record cannot hold.
\<close>

definition detectPort_stored :: "nat option \<Rightarrow> code_analysis \<Rightarrow> code_analysis option" where
  "detectPort_stored parsed analysis =
     (case detectPort parsed (ca_appType analysis) of
        PortNumber p \<Rightarrow> Some (analysis\<lparr>ca_port := Some p\<rparr>)
      | PortInherited k \<Rightarrow> None)"

text \<open>The entry of the table for an application type, and 8080 where it has none.\<close>

definition table_port :: "string \<Rightarrow> nat" where
  "table_port t = (case map_of defaultPorts t of Some p \<Rightarrow> p | None \<Rightarrow> 8080)"

section \<open>TerraformService: the template generator\<close>

text \<open>
  The service object holds the path of the provisioning binary, read from the process
  environment when the service is constructed.
\<close>

record terraform_service =
  terraformPath :: string

text \<open>A template literal is its lines, each followed by a line feed.\<close>

definition unlines :: "string list \<Rightarrow> string" where
  "unlines ls = concat (map (\<lambda>l. l @ [CHR 0x0A]) ls)"

text \<open>
  The lines of the bootstrap script template, in five parts: the prologue, the three
  branches of the shell conditional and the epilogue. \<open>appPort\<close> is the decimal text
  that the template prints for the number.
\<close>

definition user_data_prologue :: "deployment_config \<Rightarrow> string list" where
  \<open>user_data_prologue config =
     (let appName = or_str (dc_appName config) ''application''
      in
       [''#!/bin/bash'',
        ''set -e  # Exit on any error'',
        ''exec > >(tee /var/log/user-data.log) 2>&1  # Log all output'',
        [],
        ''echo "Starting deployment of '' @ appName @ '' at $(date)"'',
        [],
        ''# Update system'',
        ''yum update -y'',
        [],
        ''# Install git for cloning repository'',
        ''yum install -y git'',
        [],
        ''# Install application-specific packages''])\<close>

definition user_data_python :: "deployment_config \<Rightarrow> string list" where
  \<open>user_data_python config =
     (let repositoryUrl = or_str (dc_repositoryUrl config) ''https://github.com/Arvo-AI/hello_world'';
          appPort = show_nat (or_num (dc_appPort config) 8080);
          framework = or_str (dc_framework config) [];
          language = or_str (dc_language config) [];
          appType = or_str (dc_appType config) []
      in
       [''if [ "'' @ framework @ ''" = "flask" ] || [ "'' @ framework @ ''" = "django" ] || [ "'' @ language @ ''" = "python" ] || [ "'' @ appType @ ''" = "python" ]; then'',
        ''    echo "Installing Python environment..."'',
        ''    yum install -y python3 python3-pip python3-venv'',
        ''    '',
        ''    # Create app directory and clone repository'',
        ''    mkdir -p /app'',
        ''    cd /app'',
        ''    '',
        ''    echo "Cloning repository '' @ repositoryUrl @ ''..."'',
        ''    git clone '' @ repositoryUrl @ '' ./app-source'',
        ''    '',
        ''    # Find the application directory (look for main Python file)'',
        ''    MAIN_PY_FILE=""'',
        ''    if [ -f "./app-source/app/app.py" ]; then'',
        ''        APP_DIR="/app/app-source/app"'',
        ''        MAIN_PY_FILE="app.py"'',
        ''    elif [ -f "./app-source/app.py" ]; then'',
        ''        APP_DIR="/app/app-source"'',
        ''        MAIN_PY_FILE="app.py"'',
        ''    elif [ -f "./app-source/main.py" ]; then'',
        ''        APP_DIR="/app/app-source"'',
        ''        MAIN_PY_FILE="main.py"'',
        ''    elif [ -f "./app-source/server.py" ]; then'',
        ''        APP_DIR="/app/app-source"'',
        ''        MAIN_PY_FILE="server.py"'',
        ''    else'',
        ''        echo "Could not find main Python file, defaulting to app.py..."'',
        ''        APP_DIR="/app/app-source"'',
        ''        MAIN_PY_FILE="app.py"'',
        ''    fi'',
        ''    '',
        ''    echo "Application directory: $APP_DIR"'',
        ''    echo "Main Python file: $MAIN_PY_FILE"'',
        ''    cd "$APP_DIR"'',
        ''    '',
        ''    # Create virtual environment'',
        ''    python3 -m venv /app/venv'',
        ''    source /app/venv/bin/activate'',
        ''    '',
        ''    # Install requirements if they exist'',
        ''    if [ -f "requirements.txt" ]; then'',
        ''        echo "Installing requirements from requirements.txt..."'',
        ''        pip install -r requirements.txt'',
        ''    else'',
        ''        echo "No requirements.txt found, installing basic Flask..."'',
        ''        pip install flask flask-cors gunicorn'',
        ''    fi'',
        ''    '',
        ''    # Instead of modifying the original file, create a wrapper script'',
        ''    echo "Creating wrapper script for Flask app..."'',
        ''    cat > "$APP_DIR/run_app.py" << 'WRAPPER_EOF'' @ [CHR 0x27],
        ''#!/usr/bin/env python3'',
        ''import sys'',
        ''import os'',
        [],
        ''# Add the app directory to Python path'',
        ''sys.path.insert(0, os.path.dirname(os.path.abspath(__file__)))'',
        [],
        ''# Import the original app'',
        ''if os.path.exists('app.py'):'',
        ''    from app import app'',
        ''elif os.path.exists('main.py'):'',
        ''    from main import app'',
        ''elif os.path.exists('server.py'):'',
        ''    from server import app'',
        ''else:'',
        ''    print("No Flask app file found!")'',
        ''    sys.exit(1)'',
        [],
        ''if __name__ == "__main__":'',
        ''    print("Starting Flask app on 0.0.0.0:'' @ appPort @ ''...")'',
        ''    app.run(host="0.0.0.0", port='' @ appPort @ '', debug=False)'',
        ''WRAPPER_EOF'',
        [],
        ''    chmod +x "$APP_DIR/run_app.py"'',
        ''    echo "Wrapper script created successfully"'',
        ''    '',
        ''    # Create systemd service for the Flask app'',
        ''    cat > /etc/systemd/system/flask-app.service << 'EOL'' @ [CHR 0x27],
        ''[Unit]'',
        ''Description=Flask Application'',
        ''After=network.target'',
        [],
        ''[Service]'',
        ''Type=simple'',
        ''User=ec2-user'',
        ''WorkingDirectory=$APP_DIR'',
        ''Environment=PATH=/app/venv/bin'',
        ''ExecStart=/app/venv/bin/python $APP_DIR/run_app.py'',
        ''Restart=always'',
        ''RestartSec=3'',
        ''StandardOutput=journal'',
        ''StandardError=journal'',
        [],
        ''[Install]'',
        ''WantedBy=multi-user.target'',
        ''EOL'',
        ''    '',
        ''    # Replace placeholders with actual paths'',
        ''    sed -i "s|$APP_DIR|$APP_DIR|g" /etc/systemd/system/flask-app.service'',
        ''    '',
        ''    # Set proper permissions'',
        ''    chown -R ec2-user:ec2-user /app'',
        ''    '',
        ''    # Enable and start the service'',
        ''    systemctl daemon-reload'',
        ''    systemctl enable flask-app'',
        ''    systemctl start flask-app'',
        ''    '',
        ''    # Check service status and log it'',
        ''    sleep 5'',
        ''    systemctl status flask-app || true'',
        ''    journalctl -u flask-app --no-pager -n 20 || true'',
        ''    '',
        ''    echo "Flask application deployment completed at $(date)"'',
        ''    echo "Application should be accessible on port '' @ appPort @ ''"'',
        ''    echo "Service status logged above"'',
        ''    '',
        ''    # Wait a bit and test the application'',
        ''    sleep 10'',
        ''    echo "Testing application accessibility..."'',
        ''    curl -f http://localhost:'' @ appPort @ ''/ && echo "'' @ [CHR 0xE2, CHR 0x9C, CHR 0x85] @ '' Application is responding locally" || echo "'' @ [CHR 0xE2, CHR 0x9D, CHR 0x8C] @ '' Application not responding locally"'',
        ''    '',
        ''    echo "Deployment script finished successfully at $(date)"'',
        ''    ''])\<close>

definition user_data_node :: "deployment_config \<Rightarrow> string list" where
  \<open>user_data_node config =
     (let repositoryUrl = or_str (dc_repositoryUrl config) ''https://github.com/Arvo-AI/hello_world'';
          appPort = show_nat (or_num (dc_appPort config) 8080);
          framework = or_str (dc_framework config) [];
          appType = or_str (dc_appType config) []
      in
       [''elif [ "'' @ framework @ ''" = "express" ] || [ "'' @ framework @ ''" = "node" ] || [ "'' @ appType @ ''" = "node" ]; then'',
        ''    echo "Installing Node.js environment..."'',
        ''    curl -fsSL https://rpm.nodesource.com/setup_18.x | bash -'',
        ''    yum install -y nodejs npm'',
        ''    '',
        ''    # Create app directory and clone repository'',
        ''    mkdir -p /app'',
        ''    cd /app'',
        ''    '',
        ''    echo "Cloning repository '' @ repositoryUrl @ ''..."'',
        ''    git clone '' @ repositoryUrl @ '' ./app-source'',
        ''    cd /app/app-source'',
        ''    '',
        ''    # Find the main Node.js file'',
        ''    MAIN_JS_FILE=""'',
        ''    if [ -f "server.js" ]; then'',
        ''        MAIN_JS_FILE="server.js"'',
        ''    elif [ -f "app.js" ]; then'',
        ''        MAIN_JS_FILE="app.js"'',
        ''    elif [ -f "index.js" ]; then'',
        ''        MAIN_JS_FILE="index.js"'',
        ''    elif [ -f "src/server.js" ]; then'',
        ''        MAIN_JS_FILE="src/server.js"'',
        ''    elif [ -f "src/app.js" ]; then'',
        ''        MAIN_JS_FILE="src/app.js"'',
        ''    elif [ -f "src/index.js" ]; then'',
        ''        MAIN_JS_FILE="src/index.js"'',
        ''    else'',
        ''        # Check package.json for main entry'',
        ''        if [ -f "package.json" ] && command -v node >/dev/null; then'',
        ''            MAIN_JS_FILE=$(node -e "try { console.log(require('./package.json').main || 'index.js'); } catch(e) { console.log('index.js'); }")'',
        ''        else'',
        ''            MAIN_JS_FILE="server.js"'',
        ''        fi'',
        ''    fi'',
        ''    '',
        ''    echo "Main Node.js file: $MAIN_JS_FILE"'',
        ''    '',
        ''    # Install npm dependencies'',
        ''    if [ -f "package.json" ]; then'',
        ''        echo "Installing npm dependencies..."'',
        ''        npm install'',
        ''    fi'',
        ''    '',
        ''    # Create systemd service for Node.js app'',
        ''    cat > /etc/systemd/system/node-app.service << EOL'',
        ''[Unit]'',
        ''Description=Node.js Application'',
        ''After=network.target'',
        [],
        ''[Service]'',
        ''Type=simple'',
        ''User=ec2-user'',
        ''WorkingDirectory=/app/app-source'',
        ''ExecStart=/usr/bin/node $MAIN_JS_FILE'',
        ''Restart=always'',
        ''RestartSec=3'',
        ''Environment=PORT='' @ appPort,
        [],
        ''[Install]'',
        ''WantedBy=multi-user.target'',
        ''EOL'',
        ''    '',
        ''    # Set proper permissions'',
        ''    chown -R ec2-user:ec2-user /app'',
        ''    '',
        ''    # Enable and start the service'',
        ''    systemctl daemon-reload'',
        ''    systemctl enable node-app'',
        ''    systemctl start node-app'',
        ''    '',
        ''    echo "Node.js application started successfully"'',
        ''    ''])\<close>

definition user_data_docker :: "deployment_config \<Rightarrow> string list" where
  \<open>user_data_docker config =
     (let repositoryUrl = or_str (dc_repositoryUrl config) ''https://github.com/Arvo-AI/hello_world'';
          appPort = show_nat (or_num (dc_appPort config) 8080)
      in
       [''else'',
        ''    echo "Installing Docker for containerized applications..."'',
        ''    yum install -y docker'',
        ''    systemctl start docker'',
        ''    systemctl enable docker'',
        ''    usermod -a -G docker ec2-user'',
        ''    '',
        ''    # Create app directory and clone repository'',
        ''    mkdir -p /app'',
        ''    cd /app'',
        ''    '',
        ''    echo "Cloning repository '' @ repositoryUrl @ ''..."'',
        ''    git clone '' @ repositoryUrl @ '' ./app-source'',
        ''    cd /app/app-source'',
        ''    '',
        ''    if [ -f "Dockerfile" ]; then'',
        ''        echo "Building Docker image..."'',
        ''        docker build -t myapp .'',
        ''        '',
        ''        echo "Running Docker container..."'',
        ''        docker run -d -p '' @ appPort @ '':80 --name myapp-container myapp'',
        ''    else'',
        ''        echo "No Dockerfile found, creating simple web server..."'',
        ''        echo "<h1>Hello World!</h1><p>Deployed at $(date)</p>" > index.html'',
        ''        python3 -m http.server '' @ appPort @ '' &'',
        ''    fi''])\<close>

definition user_data_epilogue :: "deployment_config \<Rightarrow> string list" where
  \<open>user_data_epilogue config =
     [''fi'',
      [],
      ''echo "Deployment completed successfully at $(date)"'']\<close>

definition main_instance_head :: "string list" where
  \<open>main_instance_head =
     [[],
      ''# EC2 Instance for application deployment'',
      ''resource "aws_instance" "app_instance" {'',
      ''  ami           = var.ami_id'',
      ''  instance_type = var.instance_type'',
      ''  '',
      ''  vpc_security_group_ids = [aws_security_group.app_sg.id]'',
      ''  subnet_id              = aws_subnet.app_subnet.id'',
      ''  '',
      ''  user_data = base64encode(<<-EOF'']\<close>

definition main_instance_tail :: "string list" where
  \<open>main_instance_tail =
     [''EOF'',
      ''  )'',
      ''  '',
      ''  root_block_device {'',
      ''    volume_type = "gp3"'',
      ''    volume_size = 20'',
      ''    encrypted   = true'',
      ''  }'',
      ''  '',
      ''  tags = {'',
      ''    Name        = "${var.app_name}-instance"'',
      ''    Environment = var.environment'',
      ''    ManagedBy   = "Terraform"'',
      ''  }'',
      ''}'',
      []]\<close>

definition main_network :: "string list" where
  \<open>main_network =
     [''# VPC Configuration'',
      ''resource "aws_vpc" "app_vpc" {'',
      ''  cidr_block           = var.vpc_cidr'',
      ''  enable_dns_hostnames = true'',
      ''  enable_dns_support   = true'',
      ''  '',
      ''  tags = {'',
      ''    Name        = "${var.app_name}-vpc"'',
      ''    Environment = var.environment'',
      ''    ManagedBy   = "Terraform"'',
      ''  }'',
      ''}'',
      [],
      ''# Internet Gateway'',
      ''resource "aws_internet_gateway" "app_igw" {'',
      ''  vpc_id = aws_vpc.app_vpc.id'',
      ''  '',
      ''  tags = {'',
      ''    Name        = "${var.app_name}-igw"'',
      ''    Environment = var.environment'',
      ''    ManagedBy   = "Terraform"'',
      ''  }'',
      ''}'',
      [],
      ''# Public Subnet'',
      ''resource "aws_subnet" "app_subnet" {'',
      ''  vpc_id                  = aws_vpc.app_vpc.id'',
      ''  cidr_block              = var.subnet_cidr'',
      ''  availability_zone       = var.availability_zone'',
      ''  map_public_ip_on_launch = true'',
      ''  '',
      ''  tags = {'',
      ''    Name        = "${var.app_name}-subnet"'',
      ''    Environment = var.environment'',
      ''    ManagedBy   = "Terraform"'',
      ''  }'',
      ''}'',
      [],
      ''# Route Table'',
      ''resource "aws_route_table" "app_rt" {'',
      ''  vpc_id = aws_vpc.app_vpc.id'',
      ''  '',
      ''  route {'',
      ''    cidr_block = "0.0.0.0/0"'',
      ''    gateway_id = aws_internet_gateway.app_igw.id'',
      ''  }'',
      ''  '',
      ''  tags = {'',
      ''    Name        = "${var.app_name}-rt"'',
      ''    Environment = var.environment'',
      ''    ManagedBy   = "Terraform"'',
      ''  }'',
      ''}'',
      [],
      ''# Route Table Association'',
      ''resource "aws_route_table_association" "app_rta" {'',
      ''  subnet_id      = aws_subnet.app_subnet.id'',
      ''  route_table_id = aws_route_table.app_rt.id'',
      ''}'',
      []]\<close>

definition main_security_group :: "string list" where
  \<open>main_security_group =
     [''# Security Group'',
      ''resource "aws_security_group" "app_sg" {'',
      ''  name_prefix = "${var.app_name}-sg-"'',
      ''  description = "Security group for ${var.app_name}"'',
      ''  vpc_id      = aws_vpc.app_vpc.id'',
      ''  '',
      ''  ingress {'',
      ''    description = "SSH"'',
      ''    from_port   = 22'',
      ''    to_port     = 22'',
      ''    protocol    = "tcp"'',
      ''    cidr_blocks = ["0.0.0.0/0"]'',
      ''  }'',
      ''  '',
      ''  ingress {'',
      ''    description = "HTTP"'',
      ''    from_port   = 80'',
      ''    to_port     = 80'',
      ''    protocol    = "tcp"'',
      ''    cidr_blocks = ["0.0.0.0/0"]'',
      ''  }'',
      ''  '',
      ''  ingress {'',
      ''    description = "HTTPS"'',
      ''    from_port   = 443'',
      ''    to_port     = 443'',
      ''    protocol    = "tcp"'',
      ''    cidr_blocks = ["0.0.0.0/0"]'',
      ''  }'',
      ''  '',
      ''  ingress {'',
      ''    description = "Application Port"'',
      ''    from_port   = 8080'',
      ''    to_port     = 8080'',
      ''    protocol    = "tcp"'',
      ''    cidr_blocks = ["0.0.0.0/0"]'',
      ''  }'',
      ''  '',
      ''  egress {'',
      ''    description = "All outbound traffic"'',
      ''    from_port   = 0'',
      ''    to_port     = 0'',
      ''    protocol    = "-1"'',
      ''    cidr_blocks = ["0.0.0.0/0"]'',
      ''  }'',
      ''  '',
      ''  tags = {'',
      ''    Name        = "${var.app_name}-sg"'',
      ''    Environment = var.environment'',
      ''    ManagedBy   = "Terraform"'',
      ''  }'',
      ''}'',
      []]\<close>

definition main_elastic_ip :: "string list" where
  \<open>main_elastic_ip =
     [''# Elastic IP for static public IP'',
      ''resource "aws_eip" "app_eip" {'',
      ''  instance = aws_instance.app_instance.id'',
      ''  domain   = "vpc"'',
      ''  '',
      ''  tags = {'',
      ''    Name        = "${var.app_name}-eip"'',
      ''    Environment = var.environment'',
      ''    ManagedBy   = "Terraform"'',
      ''  }'',
      ''  '',
      ''  depends_on = [aws_internet_gateway.app_igw]'',
      ''}'']\<close>

definition variables_lines :: "deployment_config \<Rightarrow> string list" where
  \<open>variables_lines config =
     (let appName = or_str (dc_appName config) ''hello_world'';
          environment = (case dc_environment config of None \<Rightarrow> ''development'' | Some e \<Rightarrow> ''[object Object]'')
      in
       [[],
        ''variable "ami_id" {'',
        ''  description = "AMI ID to use for the instance"'',
        ''  type        = string'',
        ''}'',
        [],
        ''variable "instance_type" {'',
        ''  description = "EC2 instance type"'',
        ''  type        = string'',
        ''  default     = "t3.micro"'',
        ''}'',
        [],
        ''variable "app_name" {'',
        ''  description = "Name of the application"'',
        ''  type        = string'',
        ''  default     = "'' @ appName @ ''"'',
        ''}'',
        [],
        ''variable "environment" {'',
        ''  description = "Environment name"'',
        ''  type        = string'',
        ''  default     = "'' @ environment @ ''"'',
        ''}'',
        [],
        ''variable "vpc_cidr" {'',
        ''  description = "CIDR block for VPC"'',
        ''  type        = string'',
        ''  default     = "10.0.0.0/16"'',
        ''}'',
        [],
        ''variable "subnet_cidr" {'',
        ''  description = "CIDR block for subnet"'',
        ''  type        = string'',
        ''  default     = "10.0.1.0/24"'',
        ''}'',
        [],
        ''variable "availability_zone" {'',
        ''  description = "Availability zone for the subnet"'',
        ''  type        = string'',
        ''  default     = "us-east-1a"'',
        ''}''])\<close>

definition outputs_lines :: "deployment_config \<Rightarrow> string list" where
  \<open>outputs_lines config =
     (let appPort = show_nat (or_num (dc_appPort config) 8080)
      in
       [[],
        ''output "instance_id" {'',
        ''  description = "ID of the EC2 instance"'',
        ''  value       = aws_instance.app_instance.id'',
        ''}'',
        [],
        ''output "instance_public_ip" {'',
        ''  description = "Public IP address of the EC2 instance"'',
        ''  value       = aws_eip.app_eip.public_ip'',
        ''}'',
        [],
        ''output "instance_public_dns" {'',
        ''  description = "Public DNS name of the EC2 instance"'',
        ''  value       = aws_instance.app_instance.public_dns'',
        ''}'',
        [],
        ''output "application_url" {'',
        ''  description = "URL to access the deployed application"'',
        ''  value       = "http://${aws_eip.app_eip.public_ip}:'' @ appPort @ ''"'',
        ''}'',
        [],
        ''output "vpc_id" {'',
        ''  description = "ID of the VPC"'',
        ''  value       = aws_vpc.app_vpc.id'',
        ''}'',
        [],
        ''output "subnet_id" {'',
        ''  description = "ID of the subnet"'',
        ''  value       = aws_subnet.app_subnet.id'',
        ''}'',
        [],
        ''output "security_group_id" {'',
        ''  description = "ID of the security group"'',
        ''  value       = aws_security_group.app_sg.id'',
        ''}''])\<close>

definition providers_lines :: "string list" where
  \<open>providers_lines =
     [[],
      ''terraform {'',
      ''  required_version = ">= 1.0"'',
      ''  '',
      ''  required_providers {'',
      ''    aws = {'',
      ''      source  = "hashicorp/aws"'',
      ''      version = "~> 5.31.0"'',
      ''    }'',
      ''  }'',
      ''}'',
      [],
      ''provider "aws" {'',
      ''  region = var.aws_region'',
      ''  '',
      ''  default_tags {'',
      ''    tags = {'',
      ''      Project     = var.app_name'',
      ''      Environment = var.environment'',
      ''      ManagedBy   = "Terraform"'',
      ''    }'',
      ''  }'',
      ''}'',
      [],
      ''variable "aws_region" {'',
      ''  description = "AWS region"'',
      ''  type        = string'',
      ''  default     = "us-east-1"'',
      ''}'']\<close>

text \<open>
  Each generator is a method: it can reach the service object and the ambient state
  besides its argument, so both are parameters here.
\<close>

definition generateUserDataScript :: "terraform_service \<Rightarrow> world \<Rightarrow> deployment_config \<Rightarrow> string" where
  "generateUserDataScript this w config =
     unlines (user_data_prologue config @ user_data_python config @ user_data_node config
              @ user_data_docker config @ user_data_epilogue config)"

definition generateMainTerraform :: "terraform_service \<Rightarrow> world \<Rightarrow> deployment_config \<Rightarrow> string" where
  "generateMainTerraform this w config =
     (let userDataScript = generateUserDataScript this w config
      in unlines (main_instance_head @ [userDataScript] @ main_instance_tail @ main_network
                  @ main_security_group @ main_elastic_ip))"

definition generateVariablesTerraform :: "terraform_service \<Rightarrow> world \<Rightarrow> deployment_config \<Rightarrow> string" where
  "generateVariablesTerraform this w config = unlines (variables_lines config)"

definition generateOutputsTerraform :: "terraform_service \<Rightarrow> world \<Rightarrow> deployment_config \<Rightarrow> string" where
  "generateOutputsTerraform this w config = unlines (outputs_lines config)"

definition generateProvidersTerraform :: "terraform_service \<Rightarrow> world \<Rightarrow> deployment_config \<Rightarrow> string" where
  "generateProvidersTerraform this w config = unlines providers_lines"

record terraform_configs =
  tc_main :: string
  tc_variables :: string
  tc_outputs :: string
  tc_providers :: string

definition generateTerraformConfig :: "terraform_service \<Rightarrow> world \<Rightarrow> deployment_config \<Rightarrow> terraform_configs" where
  "generateTerraformConfig this w deploymentConfig =
     \<lparr>tc_main = generateMainTerraform this w deploymentConfig,
      tc_variables = generateVariablesTerraform this w deploymentConfig,
      tc_outputs = generateOutputsTerraform this w deploymentConfig,
      tc_providers = generateProvidersTerraform this w deploymentConfig\<rparr>"

section \<open>DeploymentService: display steps and instructions\<close>

text \<open>
  The class body declares \<open>generateDeploymentSteps\<close> twice; the later declaration
  replaces the earlier one, so this is the one that runs. Its argument is read at the
  top-level properties \<open>appType\<close>, \<open>framework\<close>, \<open>language\<close> and
  \<open>repositoryUrl\<close>.
\<close>

record steps_arg =
  sa_appType :: "string option"
  sa_framework :: "string option"
  sa_language :: "string option"
  sa_repositoryUrl :: "string option"

text \<open>
  A deployment object passed as that argument: its application type, framework and
  language live under \<open>codeAnalysis\<close>, so only \<open>repositoryUrl\<close> is found.
\<close>

definition deployment_as_steps_arg :: "deployment \<Rightarrow> steps_arg" where
  "deployment_as_steps_arg d =
     \<lparr>sa_appType = None, sa_framework = None, sa_language = None,
      sa_repositoryUrl = d_repositoryUrl d\<rparr>"

definition python_names :: "string list" where
  "python_names = [''flask'', ''django'', ''python'']"

definition node_names :: "string list" where
  "node_names = [''node'', ''express'', ''javascript'', ''nextjs'', ''react'']"

definition getSystemConfigDetails :: "string \<Rightarrow> string list" where
  "getSystemConfigDetails framework =
     (if List.member python_names (toLowerCase framework) then
        [''Updating system packages (yum update)'',
         ''Installing Python 3 and pip'',
         ''Installing Git for repository cloning'',
         ''Creating application directory structure'',
         ''Setting up Python virtual environment'']
      else if List.member node_names (toLowerCase framework) then
        [''Updating system packages (yum update)'',
         ''Installing Node.js 18.x LTS'',
         ''Installing npm package manager'',
         ''Installing Git for repository cloning'',
         ''Creating application directory structure'']
      else
        [''Updating system packages'',
         ''Installing runtime dependencies'',
         ''Installing Git for repository cloning'',
         ''Creating application directory structure''])"

definition getApplicationDeploymentDetails :: "string \<Rightarrow> steps_arg \<Rightarrow> string list" where
  "getApplicationDeploymentDetails framework analysisResult =
     (let repositoryUrl = or_str (sa_repositoryUrl analysisResult) ''application repository''
      in if List.member python_names (toLowerCase framework) then
           [''Cloning repository: '' @ repositoryUrl,
            ''Detecting main Python application file (app.py, main.py, server.py)'',
            ''Installing Python dependencies from requirements.txt'',
            ''Configuring Flask app to run on 0.0.0.0:8080'',
            ''Setting up application directory permissions'']
         else if List.member node_names (toLowerCase framework) then
           [''Cloning repository: '' @ repositoryUrl,
            ''Detecting main Node.js entry point (server.js, app.js, index.js)'',
            ''Installing npm dependencies (npm install)'',
            ''Configuring application port to 8080'',
            ''Setting up application directory permissions'']
         else
           [''Cloning repository: '' @ repositoryUrl,
            ''Detecting application entry point'',
            ''Installing application dependencies'',
            ''Configuring application settings'',
            ''Setting up directory permissions''])"

definition getServiceSetupDetails :: "string \<Rightarrow> string list" where
  "getServiceSetupDetails framework =
     (if List.member python_names (toLowerCase framework) then
        [''Creating systemd service file for Flask app'',
         ''Configuring service to auto-start on boot'',
         ''Setting correct working directory and permissions'',
         ''Starting flask-app.service'',
         ''Enabling automatic restart on failure'']
      else if List.member node_names (toLowerCase framework) then
        [''Creating systemd service file for Node.js app'',
         ''Configuring service to auto-start on boot'',
         ''Setting correct working directory and permissions'',
         ''Starting node-app.service'',
         ''Enabling automatic restart on failure'']
      else
        [''Creating systemd service file'',
         ''Configuring service to auto-start on boot'',
         ''Setting correct working directory and permissions'',
         ''Starting application service'',
         ''Enabling automatic restart on failure''])"

definition generateDeploymentSteps :: "steps_arg \<Rightarrow> step list" where
  "generateDeploymentSteps analysisResult =
     (let framework =
            (if truthy_str (sa_framework analysisResult) then the (sa_framework analysisResult)
             else or_str (sa_language analysisResult) ''generic'')
      in [UiStep ''infrastructure'' ''Setting up AWS Infrastructure''
            ''Creating VPC, subnets, security groups, and EC2 instance with Elastic IP'' ''pending''
            [''Allocating static Elastic IP address'',
             ''Creating Virtual Private Cloud (VPC)'',
             ''Setting up public subnet with internet gateway'',
             ''Configuring security groups for web traffic'',
             ''Launching EC2 instance (t3.micro)''],
          UiStep ''system'' ''Configuring Server Environment''
            ''Installing system dependencies and runtime environment'' ''pending''
            (getSystemConfigDetails framework),
          UiStep ''application'' ''Deploying Application''
            ''Cloning repository and installing dependencies'' ''pending''
            (getApplicationDeploymentDetails framework analysisResult),
          UiStep ''service'' ''Configuring Application Service''
            ''Setting up systemd service and starting application'' ''pending''
            (getServiceSetupDetails framework),
          UiStep ''verification'' ''Verifying Deployment''
            ''Testing application accessibility and health'' ''pending''
            [''Checking service status'',
             ''Verifying port accessibility'',
             ''Testing HTTP response on port 8080'',
             ''Confirming application is live on Elastic IP'']])"

text \<open>A value printed by a template literal; a missing value prints as \<open>undefined\<close>.\<close>

definition render :: "string option \<Rightarrow> string" where
  "render v = (case v of None \<Rightarrow> ''undefined'' | Some s \<Rightarrow> s)"

definition generateDeploymentInstructions :: "steps_arg \<Rightarrow> tf_outputs option \<Rightarrow> string list" where
  \<open>generateDeploymentInstructions analysisResult terraformOutputs =
     [''1. Clone the repository:'']
     @ (if truthy_str (sa_repositoryUrl analysisResult)
        then [''   git clone '' @ the (sa_repositoryUrl analysisResult)]
        else [''   # (Upload your codebase manually)''])
     @ [[],
        ''2. Analyze the codebase and determine dependencies:'',
        ''   # Inspect requirements.txt, package.json, or other manifest files'',
        [],
        ''3. Generate and apply Terraform configuration:'',
        ''   # (Assumes AWS credentials are configured)'',
        ''   terraform init'',
        ''   terraform apply -auto-approve'',
        [],
        ''4. Wait for resources to be provisioned (EC2, VPC, Security Groups, EIP, etc.)'',
        [],
        ''5. SSH into the EC2 instance:'']
     @ (case (case terraformOutputs of None \<Rightarrow> None | Some out \<Rightarrow> out ''instance_public_ip'') of
          Some v \<Rightarrow> [''   ssh -i <your-key.pem> ec2-user@'' @ render v]
        | None \<Rightarrow> [''   ssh -i <your-key.pem> ec2-user@<EC2_PUBLIC_IP>''])
     @ [[]]
     @ (if sa_appType analysisResult = Some ''flask'' \<or> sa_framework analysisResult = Some ''flask'' then
          [''6. Set up Python environment and deploy Flask app:'',
           ''   sudo yum install -y python3 python3-pip git'',
           ''   python3 -m venv venv && source venv/bin/activate'',
           ''   pip install -r requirements.txt'',
           ''   python app.py'']
        else if sa_framework analysisResult = Some ''express''
                \<or> sa_language analysisResult = Some ''javascript'' then
          [''6. Set up Node.js environment and deploy Node app:'',
           ''   sudo yum install -y nodejs npm git'',
           ''   npm install'',
           ''   npm start'']
        else
          [''6. Set up application environment and run your app:'',
           ''   # Install required runtime and dependencies'',
           ''   # Start your application manually''])
     @ [[],
        ''7. (Optional) Set up systemd service for auto-start on boot'',
        ''   # Create a systemd service file and enable it'',
        [],
        ''8. Access your application in the browser:'']
     @ (case (case terraformOutputs of None \<Rightarrow> None | Some out \<Rightarrow> out ''application_url'') of
          Some v \<Rightarrow> [''   Open: '' @ render v]
        | None \<Rightarrow> [''   Open: http://<EC2_PUBLIC_IP>:<PORT>''])\<close>

section \<open>DeploymentService: the record table\<close>

text \<open>
  \<open>this.deployments\<close> is a Map from deployment ids to objects. Two keys can hold the
  same object (\<open>deployApplication\<close> stores the analysis object under the deployment
  id), and the source mutates objects in place, so the table maps ids to addresses and
  the objects live in a heap.
\<close>

record service_state =
  heap :: "addr \<Rightarrow> deployment"
  deployments :: "string \<rightharpoonup> addr"
  next_addr :: addr

definition empty_service :: service_state where
  "empty_service = \<lparr>heap = (\<lambda>a. new_deployment [] []), deployments = Map.empty, next_addr = 0\<rparr>"

definition deployments_has :: "service_state \<Rightarrow> string \<Rightarrow> bool" where
  "deployments_has st deploymentId = (deployments st deploymentId \<noteq> None)"

definition deployments_get :: "service_state \<Rightarrow> string \<Rightarrow> deployment option" where
  "deployments_get st deploymentId = map_option (heap st) (deployments st deploymentId)"

definition deployments_set :: "service_state \<Rightarrow> string \<Rightarrow> addr \<Rightarrow> service_state" where
  "deployments_set st deploymentId a = st\<lparr>deployments := (deployments st)(deploymentId \<mapsto> a)\<rparr>"

definition deployments_delete :: "service_state \<Rightarrow> string \<Rightarrow> service_state" where
  "deployments_delete st deploymentId = st\<lparr>deployments := (deployments st)(deploymentId := None)\<rparr>"

text \<open>A new object literal, and an assignment to properties of an existing object.\<close>

definition alloc :: "service_state \<Rightarrow> deployment \<Rightarrow> addr \<times> service_state" where
  "alloc st obj =
     (next_addr st, st\<lparr>heap := (heap st)(next_addr st := obj), next_addr := Suc (next_addr st)\<rparr>)"

definition mutate :: "service_state \<Rightarrow> addr \<Rightarrow> (deployment \<Rightarrow> deployment) \<Rightarrow> service_state" where
  "mutate st a f = st\<lparr>heap := (heap st)(a := f (heap st a))\<rparr>"

text \<open>
  \<open>error.message\<close>. The engine's wording of a TypeError is not modelled; it is written
  \<open>TypeError\<close>.
\<close>

fun error_message :: "js_error \<Rightarrow> string" where
  "error_message TypeError = ''TypeError''"
| "error_message (Error m) = m"
| "error_message (StrategyDeterminationFailed e) = ''Strategy determination failed: '' @ error_message e"

section \<open>DeploymentService.updateDeploymentStatus\<close>

definition updateDeploymentStatus ::
  "world \<Rightarrow> service_state \<Rightarrow> string \<Rightarrow> string \<Rightarrow> string \<Rightarrow> final_result option \<Rightarrow> js_error option
   \<Rightarrow> service_state" where
  "updateDeploymentStatus w st deploymentId status message result error =
     (let deployment = (case deployments_get st deploymentId of
                          None \<Rightarrow> new_deployment deploymentId status
                        | Some d \<Rightarrow> d);
          step = StatusStep (now_iso w) status message (map_option error_message error);
          updatedDeployment =
            deployment\<lparr>d_deploymentId := deploymentId,
                       d_status := status,
                       d_currentStep := Some message,
                       d_lastUpdated := Some (now_iso w),
                       d_steps := Some ((case d_steps deployment of None \<Rightarrow> [] | Some xs \<Rightarrow> xs) @ [step])\<rparr>;
          updatedDeployment = (case result of
                                 None \<Rightarrow> updatedDeployment
                               | Some r \<Rightarrow> updatedDeployment\<lparr>d_result := Some r\<rparr>);
          updatedDeployment = (case error of
                                 None \<Rightarrow> updatedDeployment
                               | Some e \<Rightarrow> updatedDeployment\<lparr>d_error := Some (error_message e)\<rparr>)
      in case alloc st updatedDeployment of
           (a, st') \<Rightarrow> deployments_set st' deploymentId a)"

section \<open>DeploymentService.analyzeApplication\<close>

text \<open>
  The collaborators (directory creation, clone or extraction, code inspection, intent
  extraction) are outside the engine: their joint outcome is an argument, either the
  error one of them threw or the codebase path with the two analyses. The result is the
  address of the stored analysis object.
\<close>

type_synonym collaborators = "js_error + (string option \<times> code_analysis \<times> nlp_analysis)"

definition analyzeApplication ::
  "world \<Rightarrow> service_state \<Rightarrow> string \<Rightarrow> string option \<Rightarrow> string option \<Rightarrow> collaborators
   \<Rightarrow> (js_error + addr) \<times> service_state" where
  "analyzeApplication w st deploymentId description repositoryUrl collab =
     (case collab of
        Inl e \<Rightarrow> (Inl e, st)
      | Inr (codebasePath, codeAnalysis, nlpAnalysis) \<Rightarrow>
          (case determineDeploymentStrategy codeAnalysis nlpAnalysis of
             Inl e \<Rightarrow> (Inl e, st)
           | Inr deploymentStrategy \<Rightarrow>
               (let analysisResult =
                      (new_deployment deploymentId ''analyzed'')
                        \<lparr>d_timestamp := Some (now_iso w),
                         d_repositoryUrl := repositoryUrl,
                         d_description := description,
                         d_codeAnalysis := Some codeAnalysis,
                         d_nlpAnalysis := Some nlpAnalysis,
                         d_deploymentStrategy := Some deploymentStrategy,
                         d_codebasePath := codebasePath\<rparr>
                in case alloc st analysisResult of
                     (a, st') \<Rightarrow> (Inr a, deployments_set st' deploymentId a))))"

section \<open>DeploymentService.deployApplication\<close>

text \<open>
  The object that \<open>applyInfrastructure\<close> returns has the properties \<open>success\<close>,
  \<open>outputs\<close>, \<open>publicUrl\<close> and \<open>message\<close>: read as the first argument of
  \<open>generatePublicUrl\<close> it has none of the properties that function looks for.
\<close>

definition apply_result_as_infrastructure :: infrastructure_obj where
  "apply_result_as_infrastructure =
     \<lparr>io_application_url = None, io_instance_public_ip = None, io_instance_public_dns = None,
      io_region = None, io_type = None\<rparr>"

text \<open>\<open>deployToInfrastructure\<close>: five simulated steps, each a delay, then the URL.\<close>

definition deployToInfrastructure ::
  "world \<Rightarrow> string \<Rightarrow> infrastructure_obj \<Rightarrow> deployment_config \<Rightarrow> deployment_result" where
  "deployToInfrastructure w deploymentId infrastructure deploymentConfig =
     \<lparr>dr_deploymentId = deploymentId,
      dr_status = ''deployed'',
      dr_publicUrl = generatePublicUrl w infrastructure deploymentConfig,
      dr_deploymentSteps =
        [(''prepare_code'', ''completed''), (''upload_code'', ''completed''),
         (''configure_app'', ''completed''), (''start_app'', ''completed''),
         (''verify_deployment'', ''completed'')],
      dr_startTime = now_iso w,
      dr_endTime = now_iso w\<rparr>"

text \<open>The URL that \<open>deployApplication\<close> records, from the outputs of the apply step.\<close>

definition deployApplication_publicUrl ::
  "tf_outputs \<Rightarrow> deployment_config \<Rightarrow> deployment_result \<Rightarrow> string option" where
  "deployApplication_publicUrl outputs deploymentConfig deploymentResult =
     (case outputs ''application_url'' of
        Some v \<Rightarrow> v
      | None \<Rightarrow>
          (case outputs ''instance_public_ip'' of
             Some v \<Rightarrow>
               Some (''http://'' @ render v @ '':'' @ show_nat (or_num (dc_port deploymentConfig) 8080))
           | None \<Rightarrow> Some (dr_publicUrl deploymentResult)))"

text \<open>
  The body of the \<open>try\<close>. The outcome of \<open>applyInfrastructure\<close> (the external
  provisioning run) is an argument: the error it threw or the parsed outputs. The
  Terraform texts generated in between cannot throw and are not passed on, since
  \<open>applyInfrastructure\<close> takes one parameter.
\<close>

definition deployApplication_try ::
  "world \<Rightarrow> service_state \<Rightarrow> string \<Rightarrow> string option \<Rightarrow> string option \<Rightarrow> string option
   \<Rightarrow> collaborators \<Rightarrow> (js_error + tf_outputs) \<Rightarrow> (js_error + addr) \<times> service_state" where
  "deployApplication_try w st deploymentId description repositoryUrl analysisId collab applied =
     (case (if truthy_str analysisId \<and> deployments_has st (the analysisId)
            then (Inr (the (deployments st (the analysisId))), st)
            else analyzeApplication w st deploymentId description repositoryUrl collab) of
        (Inl e, st1) \<Rightarrow> (Inl e, st1)
      | (Inr analysisResult, st1) \<Rightarrow>
          (let st2 = mutate st1 analysisResult
                       (\<lambda>d. d\<lparr>d_status := ''deploying'', d_deploymentStarted := Some (now_iso w)\<rparr>);
               st3 = mutate st2 analysisResult
                       (\<lambda>d. d\<lparr>d_steps := Some (generateDeploymentSteps (deployment_as_steps_arg d))\<rparr>);
               st4 = deployments_set st3 deploymentId analysisResult
           in case generateDeploymentConfig (heap st4 analysisResult) deploymentId of
                Inl e \<Rightarrow> (Inl e, st4)
              | Inr deploymentConfig \<Rightarrow>
                  (case applied of
                     Inl e \<Rightarrow> (Inl e, st4)
                   | Inr outputs \<Rightarrow>
                       (let deploymentResult =
                              deployToInfrastructure w deploymentId apply_result_as_infrastructure
                                deploymentConfig;
                            publicUrl =
                              deployApplication_publicUrl outputs deploymentConfig deploymentResult;
                            st5 = mutate st4 analysisResult
                                    (\<lambda>d. d\<lparr>d_status := ''deployed'',
                                            d_deploymentCompleted := Some (now_iso w),
                                            d_infrastructure :=
                                              Some (ApplyResult outputs
                                                (case outputs ''application_url'' of
                                                   None \<Rightarrow> None | Some v \<Rightarrow> v)),
                                            d_deployment := Some deploymentResult,
                                            d_publicUrl := publicUrl,
                                            d_instructions :=
                                              Some (generateDeploymentInstructions
                                                      (deployment_as_steps_arg d) (Some outputs))\<rparr>)
                        in (Inr analysisResult, deployments_set st5 deploymentId analysisResult)))))"

text \<open>The \<open>catch\<close>: mark the record failed if there is one, and rethrow.\<close>

definition deployApplication ::
  "world \<Rightarrow> service_state \<Rightarrow> string \<Rightarrow> string option \<Rightarrow> string option \<Rightarrow> string option
   \<Rightarrow> collaborators \<Rightarrow> (js_error + tf_outputs) \<Rightarrow> (js_error + addr) \<times> service_state" where
  "deployApplication w st deploymentId description repositoryUrl analysisId collab applied =
     (case deployApplication_try w st deploymentId description repositoryUrl analysisId collab applied of
        (Inr a, st') \<Rightarrow> (Inr a, st')
      | (Inl e, st') \<Rightarrow>
          (Inl e,
           if deployments_has st' deploymentId then
             (let a = the (deployments st' deploymentId);
                  st'' = mutate st' a
                           (\<lambda>d. d\<lparr>d_status := ''failed'', d_error := Some (error_message e),
                                   d_deploymentFailed := Some (now_iso w)\<rparr>)
              in deployments_set st'' deploymentId a)
           else st'))"

section \<open>DeploymentService.processChatDeployment\<close>

text \<open>
  The chat flow. Besides the collaborators and the apply step, the outcome of
  \<open>generateChatResponse\<close> is an argument. The uploaded file only reaches the
  collaborators. All clock readings of one run are taken from the same \<open>world\<close>.
\<close>

definition chat_failed ::
  "world \<Rightarrow> service_state \<Rightarrow> string \<Rightarrow> js_error \<Rightarrow> (js_error + final_result) \<times> service_state" where
  "chat_failed w st deploymentId e =
     (Inl e, updateDeploymentStatus w st deploymentId ''failed''
               (''Deployment failed: '' @ error_message e) None (Some e))"

definition processChatDeployment ::
  "world \<Rightarrow> service_state \<Rightarrow> string \<Rightarrow> string \<Rightarrow> string option \<Rightarrow> collaborators
   \<Rightarrow> (js_error + tf_outputs) \<Rightarrow> (js_error + string) \<Rightarrow> (js_error + final_result) \<times> service_state" where
  "processChatDeployment w st deploymentId message repositoryUrl collab applied chat =
     (case alloc st ((new_deployment deploymentId ''initializing'')
                       \<lparr>d_timestamp := Some (now_iso w), d_message := Some message,
                        d_repositoryUrl := repositoryUrl, d_steps := Some []\<rparr>) of
        (a0, st0) \<Rightarrow>
          (let st0 = deployments_set st0 deploymentId a0;
               st1 = updateDeploymentStatus w st0 deploymentId ''analyzing''
                       ''Analyzing application...'' None None
           in case analyzeApplication w st1 deploymentId (Some message) repositoryUrl collab of
                (Inl e, st2) \<Rightarrow> chat_failed w st2 deploymentId e
              | (Inr analysisResult, st2) \<Rightarrow>
                  (let st3 = updateDeploymentStatus w st2 deploymentId ''deploying''
                               ''Starting deployment...'' None None
                   in case deployApplication w st3 deploymentId (Some message) None
                             (Some deploymentId) collab applied of
                        (Inl e, st4) \<Rightarrow> chat_failed w st4 deploymentId e
                      | (Inr deploymentResult, st4) \<Rightarrow>
                          (let st5 = updateDeploymentStatus w st4 deploymentId ''completing''
                                       ''Generating response...'' None None
                           in case chat of
                                Inl e \<Rightarrow> chat_failed w st5 deploymentId e
                              | Inr chatResponse \<Rightarrow>
                                  (let finalResult =
                                         \<lparr>fr_analysis = analysisResult,
                                          fr_deployment = deploymentResult,
                                          fr_chatResponse = chatResponse,
                                          fr_steps = generateDeploymentSteps
                                            (deployment_as_steps_arg (heap st5 analysisResult))\<rparr>
                                   in (Inr finalResult,
                                       updateDeploymentStatus w st5 deploymentId ''completed''
                                         ''Deployment completed successfully''
                                         (Some finalResult) None))))))"

section \<open>The host: files and the process environment\<close>

text \<open>
  A path is its list of segments from the root. The file system is the list of the
  entries that exist; a path exists when it is an entry or an ancestor of one.
  Deployment ids are taken to be single segments, as the route parameters are.
\<close>

type_synonym path = "string list"

record host =
  h_fs :: "path list"
  h_cwd :: path  \<comment> \<open>\<open>process.cwd()\<close>\<close>
  h_TEMP_DIR :: "path option"  \<comment> \<open>\<open>process.env.TEMP_DIR\<close>, resolved\<close>

definition pathExists :: "path list \<Rightarrow> path \<Rightarrow> bool" where
  "pathExists fs p = list_ex (\<lambda>entry. prefix p entry) fs"

text \<open>\<open>process.env.TEMP_DIR || "./temp"\<close>, resolved against the working directory.\<close>

definition temp_root :: "host \<Rightarrow> path" where
  "temp_root h = (case h_TEMP_DIR h of None \<Rightarrow> h_cwd h @ [''temp''] | Some t \<Rightarrow> t)"

text \<open>
  An argument as a callee receives it: a string, or an object. \<open>path.join\<close> throws a
  TypeError at the first segment that is not a string.
\<close>

datatype js_arg = JString string | JObject

fun path_join :: "path \<Rightarrow> js_arg list \<Rightarrow> js_error + path" where
  "path_join base [] = Inr base"
| "path_join base (JString s # rest) = path_join (base @ [s]) rest"
| "path_join base (JObject # rest) = Inl TypeError"

section \<open>DeploymentService.getDeploymentStatus\<close>

record status_response =
  sr_deploymentId :: string
  sr_status :: string
  sr_timestamp :: "string option"
  sr_publicUrl :: "string option"
  sr_error :: "string option"
  sr_progress :: nat
  sr_note :: "string option"
  sr_instructions :: "string list option"

text \<open>The URL that status reconstruction derives from the outputs.\<close>

definition reconstructed_publicUrl :: "tf_outputs \<Rightarrow> string option" where
  "reconstructed_publicUrl terraformOutputs =
     (case terraformOutputs ''application_url'' of
        Some v \<Rightarrow> v
      | None \<Rightarrow>
          (case terraformOutputs ''instance_public_ip'' of
             Some v \<Rightarrow> Some (''http://'' @ render v @ '':8080'')
           | None \<Rightarrow> None))"

text \<open>
  \<open>this.terraformService.getTerraformOutputs(terraformDir)\<close>. The class
  \<open>TerraformService\<close> declares \<open>generateTerraformConfig\<close>, the five template
  generators, \<open>applyInfrastructure\<close>, \<open>getLatestAMI\<close>, \<open>runTerraformCommand\<close> and
  \<open>destroyInfrastructure\<close>, and no method of this name: the property read gives
  \<open>undefined\<close> and the call throws a TypeError, whatever the directory holds.
\<close>

definition getTerraformOutputs :: "path \<Rightarrow> js_error + tf_outputs" where
  "getTerraformOutputs terraformDir = Inl TypeError"

text \<open>
  \<open>getDeploymentStatus\<close>, with both branches of the inner \<open>try\<close> as the source
  writes them.
\<close>

definition getDeploymentStatus ::
  "world \<Rightarrow> host \<Rightarrow> service_state \<Rightarrow> string
   \<Rightarrow> (js_error + status_response) \<times> service_state" where
  "getDeploymentStatus w h st deploymentId =
     (if deployments_has st deploymentId then
        (let deployment = heap st (the (deployments st deploymentId))
         in (Inr \<lparr>sr_deploymentId = deploymentId,
                  sr_status = d_status deployment,
                  sr_timestamp = d_timestamp deployment,
                  sr_publicUrl = d_publicUrl deployment,
                  sr_error = d_error deployment,
                  sr_progress = calculateProgress (d_status deployment),
                  sr_note = None,
                  sr_instructions = d_instructions deployment\<rparr>, st))
      else
        (let deploymentDir = temp_root h @ [deploymentId];
             terraformDir = deploymentDir @ [''hello_world'', ''terraform''];
             terraformStateFile = terraformDir @ [''terraform.tfstate'']
         in if pathExists (h_fs h) deploymentDir \<and> pathExists (h_fs h) terraformStateFile then
              (case getTerraformOutputs terraformDir of
                 Inr terraformOutputs \<Rightarrow>
                   (let publicUrl = reconstructed_publicUrl terraformOutputs;
                        steps = generateDeploymentSteps
                                  \<lparr>sa_appType = Some ''unknown'', sa_framework = Some ''flask'',
                                   sa_language = None, sa_repositoryUrl = None\<rparr>;
                        instructions = generateDeploymentInstructions
                                  \<lparr>sa_appType = Some ''flask'', sa_framework = Some ''flask'',
                                   sa_language = None, sa_repositoryUrl = None\<rparr>
                                  (Some terraformOutputs);
                        reconstructedDeployment =
                          (new_deployment deploymentId ''completed'')
                            \<lparr>d_timestamp := Some (now_iso w),
                             d_publicUrl := publicUrl,
                             d_infrastructure := Some (BareOutputs terraformOutputs),
                             d_steps := Some steps,
                             d_instructions := Some instructions,
                             d_reconstructed := True\<rparr>
                    in case alloc st reconstructedDeployment of
                         (a, st') \<Rightarrow>
                           (Inr \<lparr>sr_deploymentId = deploymentId,
                                  sr_status = ''completed'',
                                  sr_timestamp = Some (now_iso w),
                                  sr_publicUrl = publicUrl,
                                  sr_error = None,
                                  sr_progress = 100,
                                  sr_note = Some ''Status reconstructed from deployment artifacts'',
                                  sr_instructions = Some instructions\<rparr>,
                            deployments_set st' deploymentId a))
               | Inl terraformError \<Rightarrow>
                   (Inr \<lparr>sr_deploymentId = deploymentId,
                          sr_status = ''unknown'',
                          sr_timestamp = Some (now_iso w),
                          sr_publicUrl = None,
                          sr_error = None,
                          sr_progress = 50,
                          sr_note = Some ''Deployment artifacts found but status unclear'',
                          sr_instructions = None\<rparr>, st))
            else (Inl (Error ''Deployment not found''), st)))"

section \<open>Destroying a deployment\<close>

text \<open>
  \<open>TerraformService.destroyInfrastructure\<close>. Its parameter is used as a path segment.
  The outcome of the external \<open>terraform destroy\<close> run is an argument; the second
  component of the result lists the invocations of the provisioning binary, each with
  its arguments.
\<close>

definition destroyInfrastructure ::
  "host \<Rightarrow> (js_error + unit) \<Rightarrow> js_arg \<Rightarrow> (js_error + string) \<times> string list list" where
  "destroyInfrastructure h terraform_destroy deploymentId =
     (case path_join (h_cwd h)
             [JString ''temp'', deploymentId, JString ''hello_world'', JString ''terraform''] of
        Inl e \<Rightarrow> (Inl e, [])
      | Inr deploymentDir \<Rightarrow>
          (let stateFile = deploymentDir @ [''terraform.tfstate'']
           in if \<not> pathExists (h_fs h) stateFile then (Inr ''No infrastructure to destroy'', [])
              else (case terraform_destroy of
                      Inl e \<Rightarrow> (Inl e, [[''destroy'', ''-auto-approve'']])
                    | Inr u \<Rightarrow>
                        (Inr ''Infrastructure destroyed successfully'',
                         [[''destroy'', ''-auto-approve'']]))))"

text \<open>\<open>cleanupDeployment\<close> removes the deployment directory; it never throws.\<close>

definition cleanupDeployment :: "host \<Rightarrow> string \<Rightarrow> host" where
  "cleanupDeployment h deploymentId =
     h\<lparr>h_fs := filter (\<lambda>entry. \<not> prefix (temp_root h @ [deploymentId]) entry) (h_fs h)\<rparr>"

text \<open>
  \<open>DeploymentService.destroyDeployment\<close>. It calls \<open>destroyInfrastructure\<close> with an
  object literal \<open>{deploymentId, workingDir}\<close>. The result is the outcome, the new
  table, the new host and the invocations of the provisioning binary.
\<close>

definition destroyDeployment ::
  "host \<Rightarrow> (js_error + unit) \<Rightarrow> service_state \<Rightarrow> string
   \<Rightarrow> (js_error + unit) \<times> service_state \<times> host \<times> string list list" where
  "destroyDeployment h terraform_destroy st deploymentId =
     (if \<not> deployments_has st deploymentId then (Inl (Error ''Deployment not found''), st, h, [])
      else
        (let deployment = heap st (the (deployments st deploymentId))
         in case (case d_infrastructure deployment of
                    Some infrastructure \<Rightarrow> destroyInfrastructure h terraform_destroy JObject
                  | None \<Rightarrow> (Inr [], [])) of
              (Inl e, calls) \<Rightarrow> (Inl e, st, h, calls)
            | (Inr r, calls) \<Rightarrow>
                (Inr (), deployments_delete st deploymentId, cleanupDeployment h deploymentId, calls)))"

section \<open>The ingress rule of the application port\<close>

text \<open>
  The lines of an ingress block that opens one port to all sources, in the layout of
  the security group of the main template.
\<close>

definition application_port_rule :: "nat \<Rightarrow> string list" where
  \<open>application_port_rule p =
     [''  ingress {'',
      ''    description = "Application Port"'',
      ''    from_port   = '' @ show_nat p,
      ''    to_port     = '' @ show_nat p,
      ''    protocol    = "tcp"'',
      ''    cidr_blocks = ["0.0.0.0/0"]'',
      ''  }'']\<close>

section \<open>Concrete inputs\<close>

text \<open>A clock reading, a random draw and a host, for evaluating the operations.\<close>

definition sample_world :: world where
  "sample_world =
     \<lparr>now_iso = ''2024-01-01T00:00:00.000Z'', rand36 = ''k3j9x0q2ab7m1'',
      rand255 = (52, 14, 201, 7)\<rparr>"

definition sample_host :: host where
  "sample_host = \<lparr>h_fs = [], h_cwd = [''srv'', ''app''], h_TEMP_DIR = None\<rparr>"

text \<open>
  A Flask application (language python, framework flask, no port detected) and the
  intent that the rule-based extractor produces for a plain request: provider aws and
  deployment type vm.
\<close>

definition flask_analysis :: code_analysis where
  "flask_analysis =
     \<lparr>ca_language = Some ''python'', ca_framework = Some ''flask'', ca_appType = Some ''flask'',
      ca_port = None, ca_dependencies = Some [''flask''], ca_buildCommands = [],
      ca_startCommands = [''python app.py''],
      ca_environmentVariables = [''DB_PASSWORD'', ''DB_HOST''],
      ca_databaseRequirements = [], ca_dockerized = False, ca_staticFiles = False\<rparr>"

definition default_intent :: nlp_analysis where
  "default_intent =
     \<lparr>nlp_cloudProvider = Some ''aws'', nlp_deploymentType = Some ''vm'',
      nlp_environment = ''production'', nlp_scalingRequirements = ''low'',
      nlp_estimatedTraffic = ''low'', nlp_databaseNeeded = False, nlp_storageNeeded = False,
      nlp_customDomain = False, nlp_https = False, nlp_monitoring = False, nlp_requirements = []\<rparr>"

definition vm_strategy :: strategy where
  "vm_strategy =
     \<lparr>s_type = ''vm'', s_reasoning = [''User requested vm deployment''],
      s_infrastructure = Some \<lparr>si_type = ''vm'', si_services = [''ec2'', ''elb''],
                               si_estimated_cost = ''medium'', si_scalability = ''manual''\<rparr>,
      s_estimated_cost = ''low'', s_complexity = ''medium''\<rparr>"

definition sample_id :: string where
  "sample_id = ''3f2a9c1e-7b4d-4e8a-9c1f-2d6b8a0e5f73''"

text \<open>The analysis object for that application, and the same with port 5000 detected.\<close>

definition flask_record :: deployment where
  "flask_record =
     (new_deployment sample_id ''analyzed'')
       \<lparr>d_timestamp := Some (now_iso sample_world),
        d_repositoryUrl := Some ''https://example/repo'',
        d_description := Some ''Deploy my Flask app on AWS'',
        d_codeAnalysis := Some flask_analysis,
        d_nlpAnalysis := Some default_intent,
        d_deploymentStrategy := Some vm_strategy,
        d_codebasePath := Some ''temp/3f2a9c1e-7b4d-4e8a-9c1f-2d6b8a0e5f73/repo''\<rparr>"

definition flask_record_5000 :: deployment where
  "flask_record_5000 = flask_record\<lparr>d_codeAnalysis := Some (flask_analysis\<lparr>ca_port := Some 5000\<rparr>)\<rparr>"

text \<open>The configuration assembled from the second one.\<close>

definition flask_config_5000 :: deployment_config where
  "flask_config_5000 =
     \<lparr>dc_deploymentId = sample_id,
      dc_cloudProvider = ''aws'',
      dc_strategy = vm_strategy,
      dc_repositoryUrl = Some ''https://example/repo'',
      dc_description = ''Deploy my Flask app on AWS'',
      dc_appName = Some ''app-3f2a9c1e'',
      dc_appType = Some ''flask'',
      dc_framework = Some ''flask'',
      dc_language = Some ''python'',
      dc_appPort = Some 5000,
      dc_application =
        \<lparr>app_name = ''app-3f2a9c1e'', app_type = Some ''flask'', app_framework = Some ''flask'',
         app_language = Some ''python'', app_port = 5000, app_buildCommands = [],
         app_startCommands = [''python app.py'']\<rparr>,
      dc_environment =
        Some \<lparr>env_variables = [''DB_PASSWORD'', ''DB_HOST''], env_secrets = [''DB_PASSWORD'']\<rparr>,
      dc_port = None\<rparr>"

text \<open>Outputs that hold a public address only, read as an infrastructure object.\<close>

definition address_only :: infrastructure_obj where
  "address_only =
     \<lparr>io_application_url = None, io_instance_public_ip = Some (Some ''203.0.113.10''),
      io_instance_public_dns = None, io_region = None, io_type = None\<rparr>"

definition address_only_outputs :: tf_outputs where
  "address_only_outputs = [''instance_public_ip'' \<mapsto> Some ''203.0.113.10'']"

definition sample_service :: terraform_service where
  "sample_service = \<lparr>terraformPath = ''terraform''\<rparr>"

text \<open>A host on which the provisioning state of the sample deployment exists.\<close>

definition host_with_state :: host where
  "host_with_state =
     sample_host\<lparr>h_fs := [[''srv'', ''app'', ''temp'', sample_id, ''hello_world'', ''terraform'',
                             ''terraform.tfstate'']]\<rparr>"

text \<open>
  The record table after a successful deployment of the sample application: one object,
  under the sample id, with its \<open>infrastructure\<close> property set.
\<close>

definition deployed_record :: deployment where
  "deployed_record =
     flask_record_5000\<lparr>d_status := ''deployed'',
                       d_infrastructure := Some (ApplyResult address_only_outputs None),
                       d_publicUrl := Some ''http://203.0.113.10:8080''\<rparr>"

definition deployed_state :: service_state where
  "deployed_state = deployments_set (snd (alloc empty_service deployed_record)) sample_id 0"

text \<open>The successful outcome of the collaborators on the sample application.\<close>

definition flask_collaborators :: collaborators where
  "flask_collaborators =
     Inr (Some ''temp/3f2a9c1e-7b4d-4e8a-9c1f-2d6b8a0e5f73/repo'', flask_analysis, default_intent)"

section \<open>Properties of the helpers\<close>

lemma includes_iff_factor: "str_includes s p \<longleftrightarrow> (\<exists>pre suf. s = pre @ p @ suf)"
proof (induction s)
  case Nil
  show ?case by auto
next
  case (Cons c cs)
  show ?case
  proof
    assume "str_includes (c # cs) p"
    then consider "prefix p (c # cs)" | "str_includes cs p" by auto
    then show "\<exists>pre suf. c # cs = pre @ p @ suf"
    proof cases
      case 1
      then obtain suf where "c # cs = p @ suf" by (auto simp: prefix_def)
      then have "c # cs = [] @ p @ suf" by simp
      then show ?thesis by blast
    next
      case 2
      with Cons.IH obtain pre suf where "cs = pre @ p @ suf" by blast
      then have "c # cs = (c # pre) @ p @ suf" by simp
      then show ?thesis by blast
    qed
  next
    assume "\<exists>pre suf. c # cs = pre @ p @ suf"
    then obtain pre suf where eq: "c # cs = pre @ p @ suf" by blast
    show "str_includes (c # cs) p"
    proof (cases pre)
      case Nil
      with eq have "prefix p (c # cs)" by (simp add: prefix_def)
      then show ?thesis by simp
    next
      case (Cons d pre')
      with eq have "cs = pre' @ p @ suf" by simp
      with Cons.IH have "str_includes cs p" by blast
      then show ?thesis by simp
    qed
  qed
qed

lemma show_nat_small: "n < 10 \<Longrightarrow> show_nat n = [digit_char n]"
  by (subst show_nat.simps) simp

lemma show_nat_large: "10 \<le> n \<Longrightarrow> show_nat n = show_nat (n div 10) @ [digit_char (n mod 10)]"
  by (subst show_nat.simps) simp

lemmas show_nat_eval = show_nat_small show_nat_large digit_char_def

section \<open>Secret identification\<close>

lemma toLowerCase_DB_PASSWORD: "toLowerCase ''DB_PASSWORD'' = ''db_password''"
  by (simp add: toLowerCase_def lower_char_def)

lemma toLowerCase_DB_HOST: "toLowerCase ''DB_HOST'' = ''db_host''"
  by (simp add: toLowerCase_def lower_char_def)

text \<open>
  Claim C6. \<open>identifySecrets\<close> keeps, in order, exactly the names whose lower-cased
  form contains one of \<open>password\<close>, \<open>secret\<close>, \<open>key\<close>, \<open>token\<close>, \<open>api\<close> as a
  substring (the name need not equal the keyword). \<open>DB_PASSWORD\<close> is flagged and
  \<open>DB_HOST\<close> is not.
\<close>

theorem identifySecrets_substring_match:
  "identifySecrets envVars =
     filter (\<lambda>v. \<exists>p \<in> set [''password'', ''secret'', ''key'', ''token'', ''api''].
                  \<exists>pre suf. toLowerCase v = pre @ p @ suf) envVars
   \<and> identifySecrets [''DB_PASSWORD''] = [''DB_PASSWORD'']
   \<and> identifySecrets [''DB_HOST''] = []"
proof (intro conjI)
  show "identifySecrets envVars =
     filter (\<lambda>v. \<exists>p \<in> set [''password'', ''secret'', ''key'', ''token'', ''api''].
                  \<exists>pre suf. toLowerCase v = pre @ p @ suf) envVars"
    unfolding identifySecrets_def secretPatterns_def list_ex_iff includes_iff_factor ..
  show "identifySecrets [''DB_PASSWORD''] = [''DB_PASSWORD'']"
    by (simp add: identifySecrets_def secretPatterns_def toLowerCase_DB_PASSWORD)
  show "identifySecrets [''DB_HOST''] = []"
    by (simp add: identifySecrets_def secretPatterns_def toLowerCase_DB_HOST)
qed

theorem identifySecrets_substring_match_witness:
  "(\<exists>p \<in> set [''password'', ''secret'', ''key'', ''token'', ''api''].
      \<exists>pre suf. toLowerCase ''DB_PASSWORD'' = pre @ p @ suf)
   \<and> \<not> (\<exists>p \<in> set [''password'', ''secret'', ''key'', ''token'', ''api''].
      \<exists>pre suf. toLowerCase ''DB_HOST'' = pre @ p @ suf)"
  using identifySecrets_substring_match [of "[''DB_PASSWORD'']"]
    identifySecrets_substring_match [of "[''DB_HOST'']"]
  by (auto split: if_splits)

section \<open>Progress percentage\<close>

lemma calculateProgress_cases:
  "calculateProgress s =
     (if s = ''analyzed'' then 33 else if s = ''deploying'' then 67
      else if s = ''deployed'' then 100 else if s = ''failed'' then 100 else 0)"
  by (simp add: calculateProgress_def stages_def math_round_div_def)

text \<open>
  Claim C10. \<open>calculateProgress\<close> gives 100 for \<open>failed\<close>; it is non-zero exactly
  for the statuses of the list \<open>analyzed\<close>, \<open>deploying\<close>, \<open>deployed\<close>, \<open>failed\<close>;
  it is 0 for \<open>initializing\<close>, \<open>analyzing\<close>, \<open>completing\<close> and \<open>completed\<close>;
  and polling a record held in memory with status \<open>completed\<close> reports progress 0.
\<close>

theorem calculateProgress_buckets:
  "calculateProgress ''failed'' = 100
   \<and> (calculateProgress status \<noteq> 0 \<longleftrightarrow> status \<in> set stages)
   \<and> calculateProgress ''initializing'' = 0
   \<and> calculateProgress ''analyzing'' = 0
   \<and> calculateProgress ''completing'' = 0
   \<and> calculateProgress ''completed'' = 0
   \<and> (deployments st deploymentId = Some a \<longrightarrow> d_status (heap st a) = ''completed'' \<longrightarrow>
        map_sum id sr_progress (fst (getDeploymentStatus w h st deploymentId)) = Inr 0)"
proof -
  have 1: "calculateProgress status \<noteq> 0 \<longleftrightarrow> status \<in> set stages"
    unfolding calculateProgress_cases by (auto simp: stages_def)
  have 2: "deployments st deploymentId = Some a \<longrightarrow> d_status (heap st a) = ''completed'' \<longrightarrow>
        map_sum id sr_progress (fst (getDeploymentStatus w h st deploymentId)) = Inr 0"
    by (simp add: getDeploymentStatus_def deployments_has_def Let_def calculateProgress_cases)
  show ?thesis
    using 1 2 by (simp add: calculateProgress_cases)
qed

theorem calculateProgress_buckets_witness:
  "deployments (deployments_set (snd (alloc empty_service (new_deployment ''d1'' ''completed''))) ''d1'' 0) ''d1''
     = Some 0
   \<and> d_status (heap (deployments_set (snd (alloc empty_service (new_deployment ''d1'' ''completed''))) ''d1'' 0) 0)
     = ''completed''
   \<and> map_sum id sr_progress
        (fst (getDeploymentStatus sample_world sample_host
           (deployments_set (snd (alloc empty_service (new_deployment ''d1'' ''completed''))) ''d1'' 0)
           ''d1'')) = Inr 0
   \<and> ''completed'' \<notin> set stages"
  using calculateProgress_buckets
    [of "''completed''" "deployments_set (snd (alloc empty_service (new_deployment ''d1'' ''completed''))) ''d1'' 0"
        "''d1''" 0 sample_world sample_host]
  by (simp add: deployments_set_def alloc_def empty_service_def new_deployment_def stages_def)

section \<open>The strategy decision\<close>

lemma generateStrategyDetails_own:
  "s_type s \<in> set strategy_types \<Longrightarrow>
     \<exists>s'. generateStrategyDetails s = Inr s' \<and> s_type s' = s_type s \<and> s_reasoning s' = s_reasoning s"
  by (auto simp: generateStrategyDetails_def deploymentStrategies_def strategy_types_def
      generateStaticStrategy_def generateServerlessStrategy_def generateContainerStrategy_def
      generateVMStrategy_def generateKubernetesStrategy_def)

lemma generateStrategyDetails_returns:
  "s_type s \<notin> {''__proto__'', ''__defineGetter__'', ''__defineSetter__''} \<Longrightarrow>
     \<exists>s'. generateStrategyDetails s = Inr s' \<and> s_type s' = s_type s"
  by (auto simp: generateStrategyDetails_def deploymentStrategies_def
      generateStaticStrategy_def generateServerlessStrategy_def generateContainerStrategy_def
      generateVMStrategy_def generateKubernetesStrategy_def split: member.splits)

lemma generateStrategyDetails_throws:
  "s_type s \<in> {''__proto__'', ''__defineGetter__'', ''__defineSetter__''} \<Longrightarrow>
     generateStrategyDetails s = Inl TypeError"
  by (auto simp: generateStrategyDetails_def deploymentStrategies_def object_prototype_functions_def
       split: member.splits)

lemma strategy_of_flask_record:
  "determineDeploymentStrategy flask_analysis default_intent = Inr vm_strategy"
  by (simp add: determineDeploymentStrategy_def Let_def truthy_str_def default_intent_def
      generateStrategyDetails_def deploymentStrategies_def generateVMStrategy_def vm_strategy_def)

text \<open>
  A deployment type named by the intent analysis is looked up as a property name; for a
  name inherited from \<open>Object.prototype\<close> that is no generator the call throws.
\<close>

lemma determineDeploymentStrategy_inherited_name_throws:
  "determineDeploymentStrategy flask_analysis (default_intent\<lparr>nlp_deploymentType := Some ''__proto__''\<rparr>)
     = Inl (StrategyDeterminationFailed TypeError)"
  by (simp add: determineDeploymentStrategy_def Let_def truthy_str_def default_intent_def
      generateStrategyDetails_def deploymentStrategies_def)

text \<open>
  Claim C1, as stated, fails: the intent analysis of a valid pair may name a deployment
  type outside the five (here \<open>docker\<close>), and the engine returns that name verbatim.
\<close>

theorem determineDeploymentStrategy_verbatim_counterexample:
  "map_sum id s_type
     (determineDeploymentStrategy flask_analysis (default_intent\<lparr>nlp_deploymentType := Some ''docker''\<rparr>))
     = Inr ''docker''
   \<and> ''docker'' \<notin> set strategy_types"
  by (simp add: determineDeploymentStrategy_def Let_def truthy_str_def default_intent_def
      generateStrategyDetails_def deploymentStrategies_def object_prototype_functions_def
      strategy_types_def)

text \<open>
  Claim C1, amended. For every pair of analyses: when the intent analysis names no
  deployment type, \<open>determineDeploymentStrategy\<close> returns, without raising, a strategy
  whose type is one of \<open>static\<close>, \<open>serverless\<close>, \<open>container\<close>, \<open>vm\<close>,
  \<open>kubernetes\<close>, and it is \<open>vm\<close> when none of the rules for the other four
  matches; when a deployment type is named, the returned type is that name verbatim, and
  the call returns for every name other than \<open>__proto__\<close>, \<open>__defineGetter__\<close> and
  \<open>__defineSetter__\<close>.
\<close>

theorem determineDeploymentStrategy_type:
  "(\<not> truthy_str (nlp_deploymentType nlpAnalysis) \<longrightarrow>
      (\<exists>s. determineDeploymentStrategy codeAnalysis nlpAnalysis = Inr s \<and> s_type s \<in> set strategy_types))
   \<and> (truthy_str (nlp_deploymentType nlpAnalysis) \<longrightarrow>
        the (nlp_deploymentType nlpAnalysis) \<notin> {''__proto__'', ''__defineGetter__'', ''__defineSetter__''} \<longrightarrow>
      (\<exists>s. determineDeploymentStrategy codeAnalysis nlpAnalysis = Inr s
           \<and> s_type s = the (nlp_deploymentType nlpAnalysis)))
   \<and> (\<not> truthy_str (nlp_deploymentType nlpAnalysis) \<longrightarrow>
        \<not> (ca_appType codeAnalysis = Some ''static''
           \<or> (ca_staticFiles codeAnalysis \<and> \<not> truthy_str (ca_appType codeAnalysis))) \<longrightarrow>
        \<not> shouldUseServerless codeAnalysis nlpAnalysis \<longrightarrow>
        \<not> (ca_dockerized codeAnalysis \<or> shouldUseContainer codeAnalysis nlpAnalysis) \<longrightarrow>
        \<not> shouldUseKubernetes codeAnalysis nlpAnalysis \<longrightarrow>
      (\<exists>s. determineDeploymentStrategy codeAnalysis nlpAnalysis = Inr s \<and> s_type s = ''vm''
           \<and> s_reasoning s = [''Standard VM deployment for flexibility'']))"
proof (intro conjI impI)
  assume no: "\<not> truthy_str (nlp_deploymentType nlpAnalysis)"
  obtain s0 where s0: "determineDeploymentStrategy codeAnalysis nlpAnalysis =
      (case generateStrategyDetails s0 of Inl e \<Rightarrow> Inl (StrategyDeterminationFailed e) | Inr x \<Rightarrow> Inr x)"
    and ty: "s_type s0 \<in> set strategy_types"
    using no by (auto simp: determineDeploymentStrategy_def Let_def strategy_types_def)
  from generateStrategyDetails_own [OF ty] obtain s' where
    "generateStrategyDetails s0 = Inr s'" "s_type s' = s_type s0" by blast
  with s0 ty show "\<exists>s. determineDeploymentStrategy codeAnalysis nlpAnalysis = Inr s \<and> s_type s \<in> set strategy_types"
    by simp
next
  assume yes: "truthy_str (nlp_deploymentType nlpAnalysis)"
    and safe: "the (nlp_deploymentType nlpAnalysis) \<notin> {''__proto__'', ''__defineGetter__'', ''__defineSetter__''}"
  obtain s0 where s0: "determineDeploymentStrategy codeAnalysis nlpAnalysis =
      (case generateStrategyDetails s0 of Inl e \<Rightarrow> Inl (StrategyDeterminationFailed e) | Inr x \<Rightarrow> Inr x)"
    and ty: "s_type s0 = the (nlp_deploymentType nlpAnalysis)"
    using yes by (auto simp: determineDeploymentStrategy_def Let_def)
  from safe ty have "s_type s0 \<notin> {''__proto__'', ''__defineGetter__'', ''__defineSetter__''}" by simp
  from generateStrategyDetails_returns [OF this] obtain s' where
    "generateStrategyDetails s0 = Inr s'" "s_type s' = s_type s0" by blast
  with s0 ty show "\<exists>s. determineDeploymentStrategy codeAnalysis nlpAnalysis = Inr s
           \<and> s_type s = the (nlp_deploymentType nlpAnalysis)"
    by simp
next
  assume "\<not> truthy_str (nlp_deploymentType nlpAnalysis)"
    "\<not> (ca_appType codeAnalysis = Some ''static''
           \<or> (ca_staticFiles codeAnalysis \<and> \<not> truthy_str (ca_appType codeAnalysis)))"
    "\<not> shouldUseServerless codeAnalysis nlpAnalysis"
    "\<not> (ca_dockerized codeAnalysis \<or> shouldUseContainer codeAnalysis nlpAnalysis)"
    "\<not> shouldUseKubernetes codeAnalysis nlpAnalysis"
  then show "\<exists>s. determineDeploymentStrategy codeAnalysis nlpAnalysis = Inr s \<and> s_type s = ''vm''
           \<and> s_reasoning s = [''Standard VM deployment for flexibility'']"
    by (auto simp: determineDeploymentStrategy_def Let_def generateStrategyDetails_def
        deploymentStrategies_def generateVMStrategy_def)
qed

theorem determineDeploymentStrategy_type_witness:
  "\<not> truthy_str (nlp_deploymentType (default_intent\<lparr>nlp_deploymentType := None\<rparr>))
   \<and> map_sum id s_type
       (determineDeploymentStrategy (flask_analysis\<lparr>ca_framework := Some ''rails''\<rparr>)
          (default_intent\<lparr>nlp_deploymentType := None\<rparr>)) = Inr ''vm''
   \<and> truthy_str (nlp_deploymentType default_intent)
   \<and> map_sum id s_type (determineDeploymentStrategy flask_analysis default_intent) = Inr ''vm''"
  using determineDeploymentStrategy_type
      [of "default_intent\<lparr>nlp_deploymentType := None\<rparr>" "flask_analysis\<lparr>ca_framework := Some ''rails''\<rparr>"]
    determineDeploymentStrategy_type [of default_intent flask_analysis]
  by (auto simp: truthy_str_def default_intent_def flask_analysis_def shouldUseServerless_def
      shouldUseContainer_def shouldUseKubernetes_def)

section \<open>The application port of the assembled configuration\<close>

lemma config_of_flask_record_5000:
  "generateDeploymentConfig flask_record_5000 sample_id = Inr flask_config_5000"
  by (simp add: generateDeploymentConfig_def flask_record_5000_def flask_record_def
      new_deployment_def flask_analysis_def default_intent_def flask_config_5000_def
      or_str_def or_num_def truthy_str_def truthy_num_def sample_id_def
      identifySecrets_def secretPatterns_def toLowerCase_DB_PASSWORD toLowerCase_DB_HOST)

text \<open>
  The assembler copies a port that is a non-zero number; its own fallback is 8080.
\<close>

lemma generateDeploymentConfig_port:
  "d_codeAnalysis analysis = Some codeAnalysis \<Longrightarrow> d_nlpAnalysis analysis \<noteq> None \<Longrightarrow>
   d_deploymentStrategy analysis \<noteq> None \<Longrightarrow>
   map_sum id dc_appPort (generateDeploymentConfig analysis deploymentId)
     = Inr (Some (or_num (ca_port codeAnalysis) 8080))
   \<and> map_sum id (\<lambda>c. app_port (dc_application c)) (generateDeploymentConfig analysis deploymentId)
     = Inr (or_num (ca_port codeAnalysis) 8080)"
  by (auto simp: generateDeploymentConfig_def)

text \<open>
  For every application type of the inspector, \<open>detectPort\<close> leaves a number: the
  port found by the patterns, or else the entry of the table, or else 8080.
\<close>

lemma detectPort_inspector_type:
  "t \<in> set inspector_appTypes \<Longrightarrow>
   detectPort parsed (Some t)
     = PortNumber (if truthy_num parsed then the parsed else table_port t)"
  by (auto simp: inspector_appTypes_def detectPort_def table_port_def defaultPorts_def
      object_prototype_functions_def Let_def)

lemma table_port_positive: "0 < table_port t"
  by (simp add: table_port_def defaultPorts_def)

text \<open>
  Claim C4. When the inspector detects no port, the analysis it hands to the assembler
  carries the port of the fixed table for its application type, and the assembled
  configuration (\<open>appPort\<close> and \<open>application.port\<close>) has that port: 5000 for flask;
  3000 for node-express, next-js and react; 8080 for spring-boot and, there being no
  entry, for java; 8000 for django and fastapi, 8080 for go, 80 for static; and 8080
  for every other application type of the inspector. In particular the configuration
  assembled for the Flask application with no detected port has port 5000.
\<close>

theorem assembled_port_from_table:
  "(\<not> truthy_num parsed \<longrightarrow> ca_appType codeAnalysis = Some t \<longrightarrow> t \<in> set inspector_appTypes \<longrightarrow>
      d_nlpAnalysis analysis \<noteq> None \<longrightarrow> d_deploymentStrategy analysis \<noteq> None \<longrightarrow>
      map_sum id dc_appPort
          (generateDeploymentConfig
             (analysis\<lparr>d_codeAnalysis := detectPort_stored parsed codeAnalysis\<rparr>) deploymentId)
        = Inr (Some (table_port t))
      \<and> map_sum id (\<lambda>c. app_port (dc_application c))
          (generateDeploymentConfig
             (analysis\<lparr>d_codeAnalysis := detectPort_stored parsed codeAnalysis\<rparr>) deploymentId)
        = Inr (table_port t))
   \<and> table_port ''flask'' = 5000
   \<and> table_port ''node-express'' = 3000 \<and> table_port ''next-js'' = 3000
   \<and> table_port ''react'' = 3000
   \<and> table_port ''spring-boot'' = 8080 \<and> table_port ''java'' = 8080
   \<and> table_port ''django'' = 8000 \<and> table_port ''fastapi'' = 8000
   \<and> table_port ''go'' = 8080 \<and> table_port ''static'' = 80
   \<and> (t' \<notin> set (map fst defaultPorts) \<longrightarrow> table_port t' = 8080)
   \<and> ca_port flask_analysis = None
   \<and> map_sum id dc_appPort
        (generateDeploymentConfig
           (flask_record\<lparr>d_codeAnalysis := detectPort_stored None flask_analysis\<rparr>) sample_id)
       = Inr (Some 5000)"
proof -
  have general: "map_sum id dc_appPort
          (generateDeploymentConfig
             (analysis\<lparr>d_codeAnalysis := detectPort_stored parsed codeAnalysis\<rparr>) deploymentId)
        = Inr (Some (table_port t))
      \<and> map_sum id (\<lambda>c. app_port (dc_application c))
          (generateDeploymentConfig
             (analysis\<lparr>d_codeAnalysis := detectPort_stored parsed codeAnalysis\<rparr>) deploymentId)
        = Inr (table_port t)"
    if "\<not> truthy_num parsed" "ca_appType codeAnalysis = Some t" "t \<in> set inspector_appTypes"
      "d_nlpAnalysis analysis \<noteq> None" "d_deploymentStrategy analysis \<noteq> None"
    for parsed codeAnalysis t analysis deploymentId
  proof -
    from that have stored: "detectPort_stored parsed codeAnalysis
        = Some (codeAnalysis\<lparr>ca_port := Some (table_port t)\<rparr>)"
      by (simp add: detectPort_stored_def detectPort_inspector_type)
    have "or_num (ca_port (codeAnalysis\<lparr>ca_port := Some (table_port t)\<rparr>)) 8080 = table_port t"
      using table_port_positive [of t] by (simp add: or_num_def truthy_num_def)
    with generateDeploymentConfig_port
      [of "analysis\<lparr>d_codeAnalysis := detectPort_stored parsed codeAnalysis\<rparr>"
          "codeAnalysis\<lparr>ca_port := Some (table_port t)\<rparr>" deploymentId] stored that
    show ?thesis by simp
  qed
  have entries: "table_port ''flask'' = 5000" "table_port ''node-express'' = 3000"
    "table_port ''next-js'' = 3000" "table_port ''react'' = 3000"
    "table_port ''spring-boot'' = 8080" "table_port ''java'' = 8080"
    "table_port ''django'' = 8000" "table_port ''fastapi'' = 8000"
    "table_port ''go'' = 8080" "table_port ''static'' = 80"
    by (simp_all add: table_port_def defaultPorts_def)
  have other: "t' \<notin> set (map fst defaultPorts) \<longrightarrow> table_port t' = 8080"
    by (auto simp: table_port_def map_of_eq_None_iff [THEN iffD2] split: option.splits)
  have flask: "map_sum id dc_appPort
        (generateDeploymentConfig
           (flask_record\<lparr>d_codeAnalysis := detectPort_stored None flask_analysis\<rparr>) sample_id)
       = Inr (Some 5000)"
    using general [of None flask_analysis "''flask''" flask_record sample_id] entries(1)
    by (simp add: truthy_num_def flask_analysis_def flask_record_def new_deployment_def
        inspector_appTypes_def)
  have unset: "ca_port flask_analysis = None"
    by (simp add: flask_analysis_def)
  from general [of parsed codeAnalysis t analysis deploymentId] entries other flask unset
  show ?thesis by blast
qed

theorem assembled_port_from_table_witness:
  "\<not> truthy_num None \<and> ca_appType flask_analysis = Some ''flask''
   \<and> ''flask'' \<in> set inspector_appTypes
   \<and> d_nlpAnalysis flask_record \<noteq> None \<and> d_deploymentStrategy flask_record \<noteq> None
   \<and> map_sum id dc_appPort
        (generateDeploymentConfig
           (flask_record\<lparr>d_codeAnalysis := detectPort_stored None flask_analysis\<rparr>) sample_id)
       = Inr (Some (table_port ''flask''))
   \<and> table_port ''flask'' = 5000
   \<and> ''vue'' \<notin> set (map fst defaultPorts) \<and> table_port ''vue'' = 8080"
  using assembled_port_from_table
      [of None flask_analysis "''flask''" flask_record sample_id "''vue''"]
  by (simp add: truthy_num_def flask_analysis_def flask_record_def new_deployment_def
      inspector_appTypes_def defaultPorts_def)

section \<open>Public-URL derivation\<close>

text \<open>
  The order in which \<open>generatePublicUrl\<close> looks at its first argument: the
  \<open>application_url\<close> entry, then the public address, then the public DNS name; the
  port of the last two is the property \<open>port\<close> of the configuration, or 8080.
\<close>

lemma generatePublicUrl_precedence:
  "(has_value (io_application_url infrastructure) \<longrightarrow>
      generatePublicUrl w infrastructure deploymentConfig = the (the (io_application_url infrastructure)))
   \<and> (\<not> has_value (io_application_url infrastructure) \<longrightarrow>
        has_value (io_instance_public_ip infrastructure) \<longrightarrow>
      generatePublicUrl w infrastructure deploymentConfig
        = ''http://'' @ the (the (io_instance_public_ip infrastructure)) @ '':''
          @ show_nat (or_num (dc_port deploymentConfig) 8080))
   \<and> (\<not> has_value (io_application_url infrastructure) \<longrightarrow>
        \<not> has_value (io_instance_public_ip infrastructure) \<longrightarrow>
        has_value (io_instance_public_dns infrastructure) \<longrightarrow>
      generatePublicUrl w infrastructure deploymentConfig
        = ''http://'' @ the (the (io_instance_public_dns infrastructure)) @ '':''
          @ show_nat (or_num (dc_port deploymentConfig) 8080))"
  by (simp add: generatePublicUrl_def Let_def)

text \<open>No assembled configuration has the property \<open>port\<close>.\<close>

lemma assembled_config_has_no_port:
  "generateDeploymentConfig analysis deploymentId = Inr config \<Longrightarrow> dc_port config = None"
  by (auto simp: generateDeploymentConfig_def split: option.splits)

text \<open>
  Inside \<open>deployApplication\<close> there is no DNS step: with outputs that hold only the
  public DNS name, the recorded URL is the one \<open>generatePublicUrl\<close> makes up from
  random numbers, because that function is handed the object returned by the apply step
  rather than its outputs.
\<close>

lemma deployApplication_dns_only_fabricated:
  "deployApplication_publicUrl [''instance_public_dns'' \<mapsto> Some ''ec2-203-0-113-10.compute-1.amazonaws.com'']
     flask_config_5000
     (deployToInfrastructure sample_world sample_id apply_result_as_infrastructure flask_config_5000)
   = Some ''http://ec2-52-14-201-7.us-east-1.compute.amazonaws.com:8080''"
  by (simp add: deployApplication_publicUrl_def deployToInfrastructure_def generatePublicUrl_def
      apply_result_as_infrastructure_def has_value_def or_str_def truthy_str_def or_num_def
      truthy_num_def flask_config_5000_def sample_world_def show_nat_eval Let_def)

text \<open>
  Claim C2 at a configuration whose application port is 5000 and outputs that hold only
  the public address 203.0.113.10: both derivations (\<open>generatePublicUrl\<close> and the one
  inside \<open>deployApplication\<close>) read the property \<open>port\<close>, which the assembled
  configuration does not have, and build the URL with 8080.
\<close>

theorem public_url_ignores_configured_port:
  "generateDeploymentConfig flask_record_5000 sample_id = Inr flask_config_5000
   \<and> dc_appPort flask_config_5000 = Some 5000
   \<and> generatePublicUrl sample_world address_only flask_config_5000 = ''http://203.0.113.10:8080''
   \<and> deployApplication_publicUrl address_only_outputs flask_config_5000
        (deployToInfrastructure sample_world sample_id apply_result_as_infrastructure flask_config_5000)
       = Some ''http://203.0.113.10:8080''"
  by (simp add: config_of_flask_record_5000 generatePublicUrl_def address_only_def has_value_def
      truthy_str_def or_num_def truthy_num_def flask_config_5000_def show_nat_eval
      deployApplication_publicUrl_def address_only_outputs_def render_def)

section \<open>Status reconciliation\<close>

lemma pathExists_ancestor: "pathExists fs (p @ q) \<Longrightarrow> pathExists fs p"
  by (auto simp: pathExists_def list_ex_iff intro: append_prefixD)

text \<open>
  For an id that is not in the table, whenever the state file exists under the
  temporary directory the answer is \<open>unknown\<close> with progress 50 and no URL, and
  nothing is stored; the branch that answers \<open>completed\<close> is never taken.
\<close>

lemma getDeploymentStatus_state_on_disk:
  "deployments st deploymentId = None \<Longrightarrow>
   pathExists (h_fs h)
     (temp_root h @ [deploymentId, ''hello_world'', ''terraform'', ''terraform.tfstate'']) \<Longrightarrow>
   map_sum id (\<lambda>r. (sr_status r, sr_progress r, sr_publicUrl r))
       (fst (getDeploymentStatus w h st deploymentId)) = Inr (''unknown'', 50, None)
   \<and> snd (getDeploymentStatus w h st deploymentId) = st"
proof -
  assume absent: "deployments st deploymentId = None"
    and state: "pathExists (h_fs h)
        (temp_root h @ [deploymentId, ''hello_world'', ''terraform'', ''terraform.tfstate''])"
  from state have dir: "pathExists (h_fs h) (temp_root h @ [deploymentId])"
    using pathExists_ancestor [of "h_fs h" "temp_root h @ [deploymentId]"
        "[''hello_world'', ''terraform'', ''terraform.tfstate'']"] by simp
  show ?thesis
    using absent state dir
    by (simp add: getDeploymentStatus_def deployments_has_def Let_def getTerraformOutputs_def)
qed

text \<open>With neither a record in memory nor a state file on disk the call fails.\<close>

lemma getDeploymentStatus_not_found:
  "deployments st deploymentId = None \<Longrightarrow>
   \<not> pathExists (h_fs h)
     (temp_root h @ [deploymentId, ''hello_world'', ''terraform'', ''terraform.tfstate'']) \<Longrightarrow>
   getDeploymentStatus w h st deploymentId = (Inl (Error ''Deployment not found''), st)"
  by (simp add: getDeploymentStatus_def deployments_has_def Let_def)

text \<open>
  Claim C3 at the sample id: it is absent from memory and its \<open>terraform.tfstate\<close>
  exists on disk. \<open>getDeploymentStatus\<close> calls a method that the Terraform service
  does not have, the TypeError lands in the inner \<open>catch\<close>, and the answer is status
  \<open>unknown\<close> with progress 50 and a null URL, not \<open>completed\<close> with a URL; the table
  is left as it was.
\<close>

theorem getDeploymentStatus_reconstruction_unknown:
  "deployments empty_service sample_id = None
   \<and> pathExists (h_fs host_with_state)
        (temp_root host_with_state @ [sample_id, ''hello_world'', ''terraform'', ''terraform.tfstate''])
   \<and> map_sum id (\<lambda>r. (sr_status r, sr_progress r, sr_publicUrl r))
        (fst (getDeploymentStatus sample_world host_with_state empty_service sample_id))
       = Inr (''unknown'', 50, None)
   \<and> snd (getDeploymentStatus sample_world host_with_state empty_service sample_id) = empty_service"
proof -
  have absent: "deployments empty_service sample_id = None"
    by (simp add: empty_service_def)
  have state: "pathExists (h_fs host_with_state)
        (temp_root host_with_state @ [sample_id, ''hello_world'', ''terraform'', ''terraform.tfstate''])"
    by (simp add: host_with_state_def sample_host_def temp_root_def pathExists_def)
  from absent state getDeploymentStatus_state_on_disk [OF absent state, of sample_world]
  show ?thesis by simp
qed

section \<open>The steps list\<close>

lemma updateDeploymentStatus_steps:
  "map_option d_steps
     (deployments_get (updateDeploymentStatus w st deploymentId status message result error) deploymentId)
   = Some (Some ((case deployments_get st deploymentId of
                    None \<Rightarrow> []
                  | Some d \<Rightarrow> (case d_steps d of None \<Rightarrow> [] | Some xs \<Rightarrow> xs))
                 @ [StatusStep (now_iso w) status message (map_option error_message error)]))"
  by (simp add: updateDeploymentStatus_def Let_def alloc_def deployments_set_def deployments_get_def
      new_deployment_def split: option.splits)

lemma analyzeApplication_steps:
  "fst (analyzeApplication w st deploymentId description repositoryUrl collab) = Inr a \<Longrightarrow>
   map_option d_steps
     (deployments_get (snd (analyzeApplication w st deploymentId description repositoryUrl collab))
        deploymentId) = Some None"
  by (auto simp: analyzeApplication_def Let_def alloc_def deployments_set_def deployments_get_def
      new_deployment_def split: sum.splits prod.splits)

lemma deployApplication_try_steps:
  "deployApplication_try w st deploymentId description repositoryUrl analysisId collab applied
     = (Inr a, st') \<Longrightarrow>
   deployments_get st' deploymentId = Some (heap st' a)
   \<and> d_steps (heap st' a) = Some (generateDeploymentSteps (deployment_as_steps_arg (heap st' a)))"
  by (auto simp: deployApplication_try_def Let_def mutate_def deployments_set_def deployments_get_def
      deployment_as_steps_arg_def split: sum.splits prod.splits if_splits)


lemma analyzeApplication_flask:
  "fst (analyzeApplication w st deploymentId description repositoryUrl flask_collaborators)
     = Inr (next_addr st)"
  by (simp add: analyzeApplication_def flask_collaborators_def strategy_of_flask_record alloc_def Let_def)

text \<open>
  Claim C9, as stated, fails: after \<open>updateDeploymentStatus\<close> has recorded the
  \<open>analyzing\<close> entry for the sample id, \<open>analyzeApplication\<close> stores a fresh
  object under the same id and the recorded entry is gone.
\<close>

theorem steps_dropped_counterexample:
  "map_option d_steps
     (deployments_get
        (updateDeploymentStatus sample_world empty_service sample_id ''analyzing''
           ''Analyzing application...'' None None) sample_id)
     = Some (Some [StatusStep (now_iso sample_world) ''analyzing'' ''Analyzing application...'' None])
   \<and> map_option d_steps
       (deployments_get
          (snd (analyzeApplication sample_world
                  (updateDeploymentStatus sample_world empty_service sample_id ''analyzing''
                     ''Analyzing application...'' None None)
                  sample_id (Some ''Deploy my Flask app on AWS'') (Some ''https://example/repo'')
                  flask_collaborators)) sample_id)
     = Some None"
proof -
  have absent: "deployments_get empty_service sample_id = None"
    by (simp add: deployments_get_def empty_service_def)
  have before: "map_option d_steps
     (deployments_get
        (updateDeploymentStatus sample_world empty_service sample_id ''analyzing''
           ''Analyzing application...'' None None) sample_id)
     = Some (Some [StatusStep (now_iso sample_world) ''analyzing'' ''Analyzing application...'' None])"
    by (simp add: updateDeploymentStatus_steps absent)
  show ?thesis
    using before analyzeApplication_steps [OF analyzeApplication_flask] by simp
qed

text \<open>
  The whole chat flow on the sample application, every phase succeeding: the record
  ends with the five display steps followed by the \<open>completing\<close> and \<open>completed\<close>
  entries; the \<open>analyzing\<close> and \<open>deploying\<close> entries recorded on the way are not
  among them.
\<close>

lemma chat_flow_steps:
  "map_option d_steps
     (deployments_get
        (snd (processChatDeployment sample_world empty_service sample_id ''Deploy my Flask app on AWS''
                (Some ''https://example/repo'') flask_collaborators (Inr address_only_outputs)
                (Inr ''Your application is live'')))
        sample_id)
   = Some (Some (generateDeploymentSteps
                   \<lparr>sa_appType = None, sa_framework = None, sa_language = None,
                    sa_repositoryUrl = Some ''https://example/repo''\<rparr>
                 @ [StatusStep (now_iso sample_world) ''completing'' ''Generating response...'' None,
                    StatusStep (now_iso sample_world) ''completed''
                      ''Deployment completed successfully'' None]))"
  by (simp add: processChatDeployment_def analyzeApplication_def flask_collaborators_def
      strategy_of_flask_record updateDeploymentStatus_def deployApplication_def
      deployApplication_try_def alloc_def deployments_set_def deployments_get_def
      deployments_has_def mutate_def empty_service_def new_deployment_def Let_def truthy_str_def
      sample_id_def generateDeploymentConfig_def deployment_as_steps_arg_def
      split: prod.splits)

text \<open>
  Claim C9, amended. \<open>updateDeploymentStatus\<close> never removes or truncates: the
  record it stores has the previous steps (none when the record or its steps are
  missing) followed by exactly one new entry. The other two writers replace: after a
  successful \<open>analyzeApplication\<close> the record of the id has no steps, and after a
  successful \<open>deployApplication\<close> its steps are the freshly generated display
  steps.
\<close>

theorem steps_by_operation:
  "map_option d_steps
     (deployments_get (updateDeploymentStatus w st deploymentId status message result error) deploymentId)
   = Some (Some ((case deployments_get st deploymentId of
                    None \<Rightarrow> []
                  | Some d \<Rightarrow> (case d_steps d of None \<Rightarrow> [] | Some xs \<Rightarrow> xs))
                 @ [StatusStep (now_iso w) status message (map_option error_message error)]))
   \<and> (fst (analyzeApplication w st deploymentId description repositoryUrl collab) = Inr a \<longrightarrow>
        map_option d_steps
          (deployments_get (snd (analyzeApplication w st deploymentId description repositoryUrl collab))
             deploymentId) = Some None)
   \<and> (fst (deployApplication w st deploymentId description repositoryUrl analysisId collab applied)
          = Inr a \<longrightarrow>
        map_option d_steps
          (deployments_get
             (snd (deployApplication w st deploymentId description repositoryUrl analysisId collab applied))
             deploymentId)
        = Some (Some (generateDeploymentSteps
             \<lparr>sa_appType = None, sa_framework = None, sa_language = None,
              sa_repositoryUrl =
                d_repositoryUrl
                  (heap (snd (deployApplication w st deploymentId description repositoryUrl analysisId
                                collab applied)) a)\<rparr>)))"
proof (intro conjI impI)
  show "map_option d_steps
     (deployments_get (updateDeploymentStatus w st deploymentId status message result error) deploymentId)
   = Some (Some ((case deployments_get st deploymentId of
                    None \<Rightarrow> []
                  | Some d \<Rightarrow> (case d_steps d of None \<Rightarrow> [] | Some xs \<Rightarrow> xs))
                 @ [StatusStep (now_iso w) status message (map_option error_message error)]))"
    by (rule updateDeploymentStatus_steps)
next
  assume "fst (analyzeApplication w st deploymentId description repositoryUrl collab) = Inr a"
  then show "map_option d_steps
          (deployments_get (snd (analyzeApplication w st deploymentId description repositoryUrl collab))
             deploymentId) = Some None"
    by (rule analyzeApplication_steps)
next
  let ?r = "deployApplication w st deploymentId description repositoryUrl analysisId collab applied"
  assume ok: "fst ?r = Inr a"
  then have "deployApplication_try w st deploymentId description repositoryUrl analysisId collab applied
               = (Inr a, snd ?r)"
    by (auto simp: deployApplication_def split: prod.splits sum.splits)
  from deployApplication_try_steps [OF this]
  show "map_option d_steps (deployments_get (snd ?r) deploymentId)
        = Some (Some (generateDeploymentSteps
             \<lparr>sa_appType = None, sa_framework = None, sa_language = None,
              sa_repositoryUrl = d_repositoryUrl (heap (snd ?r) a)\<rparr>))"
    by (simp add: deployment_as_steps_arg_def)
qed

lemma deployApplication_flask:
  "fst (deployApplication sample_world (deployments_set (snd (alloc empty_service flask_record)) sample_id 0)
          sample_id (Some ''Deploy my Flask app on AWS'') None (Some sample_id) flask_collaborators
          (Inr address_only_outputs)) = Inr 0"
  by (simp add: deployApplication_def deployApplication_try_def truthy_str_def deployments_has_def
      deployments_set_def alloc_def empty_service_def sample_id_def mutate_def Let_def
      generateDeploymentConfig_def flask_record_def new_deployment_def split: prod.splits)

theorem steps_by_operation_witness:
  "fst (analyzeApplication sample_world empty_service sample_id (Some ''Deploy my Flask app on AWS'')
          (Some ''https://example/repo'') flask_collaborators) = Inr 0
   \<and> map_option d_steps
       (deployments_get
          (snd (analyzeApplication sample_world empty_service sample_id
                  (Some ''Deploy my Flask app on AWS'') (Some ''https://example/repo'')
                  flask_collaborators)) sample_id) = Some None
   \<and> fst (deployApplication sample_world
            (deployments_set (snd (alloc empty_service flask_record)) sample_id 0)
            sample_id (Some ''Deploy my Flask app on AWS'') None (Some sample_id) flask_collaborators
            (Inr address_only_outputs)) = Inr 0
   \<and> map_option (map_option length)
       (map_option d_steps
         (deployments_get
            (snd (deployApplication sample_world
                    (deployments_set (snd (alloc empty_service flask_record)) sample_id 0)
                    sample_id (Some ''Deploy my Flask app on AWS'') None (Some sample_id)
                    flask_collaborators (Inr address_only_outputs))) sample_id)) = Some (Some 5)"
proof -
  have a: "fst (analyzeApplication sample_world empty_service sample_id
                  (Some ''Deploy my Flask app on AWS'') (Some ''https://example/repo'')
                  flask_collaborators) = Inr 0"
    using analyzeApplication_flask [of sample_world empty_service] by (simp add: empty_service_def)
  have len: "length (generateDeploymentSteps x) = 5" for x
    by (simp add: generateDeploymentSteps_def Let_def)
  note analyzed = steps_by_operation [THEN conjunct2, THEN conjunct1, rule_format, OF a]
  note deployed = steps_by_operation [THEN conjunct2, THEN conjunct2, rule_format,
      OF deployApplication_flask]
  have counted: "map_option (map_option length)
       (map_option d_steps
         (deployments_get
            (snd (deployApplication sample_world
                    (deployments_set (snd (alloc empty_service flask_record)) sample_id 0)
                    sample_id (Some ''Deploy my Flask app on AWS'') None (Some sample_id)
                    flask_collaborators (Inr address_only_outputs))) sample_id)) = Some (Some 5)"
    unfolding deployed by (simp add: len)
  from a analyzed deployApplication_flask counted show ?thesis
    by (intro conjI)
qed

section \<open>Destroying a deployment without provisioning state\<close>

lemma destroyInfrastructure_object_argument:
  "destroyInfrastructure h terraform_destroy JObject = (Inl TypeError, [])"
  by (simp add: destroyInfrastructure_def)

lemma destroyDeployment_with_infrastructure:
  "deployments st deploymentId = Some a \<Longrightarrow> d_infrastructure (heap st a) = Some i \<Longrightarrow>
   destroyDeployment h terraform_destroy st deploymentId = (Inl TypeError, st, h, [])"
  by (simp add: destroyDeployment_def deployments_has_def destroyInfrastructure_object_argument Let_def)

lemma destroyDeployment_without_infrastructure:
  "deployments st deploymentId = Some a \<Longrightarrow> d_infrastructure (heap st a) = None \<Longrightarrow>
   destroyDeployment h terraform_destroy st deploymentId
     = (Inr (), deployments_delete st deploymentId, cleanupDeployment h deploymentId, [])"
  by (simp add: destroyDeployment_def deployments_has_def Let_def)

text \<open>
  Claim C8 at a record that a successful deployment left in memory (its
  \<open>infrastructure\<close> property is set) while no state file exists on disk:
  \<open>destroyDeployment\<close> passes an object where \<open>destroyInfrastructure\<close> expects the
  id string, \<open>path.join\<close> throws, the error propagates and the record stays. The
  provisioning binary is not invoked.
\<close>

theorem destroyDeployment_deployed_record_throws:
  "deployments_has deployed_state sample_id
   \<and> \<not> pathExists (h_fs sample_host)
         (h_cwd sample_host @ [''temp'', sample_id, ''hello_world'', ''terraform'', ''terraform.tfstate''])
   \<and> destroyDeployment sample_host (Inr ()) deployed_state sample_id
       = (Inl TypeError, deployed_state, sample_host, [])"
proof -
  have 1: "deployments deployed_state sample_id = Some 0"
    by (simp add: deployed_state_def deployments_set_def)
  have 2: "d_infrastructure (heap deployed_state 0) = Some (ApplyResult address_only_outputs None)"
    by (simp add: deployed_state_def deployments_set_def alloc_def empty_service_def deployed_record_def)
  show ?thesis
    using 1 destroyDeployment_with_infrastructure [OF 1 2]
    by (simp add: deployments_has_def sample_host_def pathExists_def)
qed

section \<open>The generated templates\<close>

lemma unlines_append: "unlines (xs @ ys) = unlines xs @ unlines ys"
  by (simp add: unlines_def)

lemma sublist_unlines: "sublist xs ys \<Longrightarrow> str_includes (unlines ys) (unlines xs)"
proof -
  assume "sublist xs ys"
  then obtain ps ss where "ys = ps @ xs @ ss" by (auto simp: sublist_def)
  then have "unlines ys = unlines ps @ unlines xs @ unlines ss" by (simp add: unlines_append)
  then show ?thesis unfolding includes_iff_factor by blast
qed

lemma line_in_unlines: "l \<in> set ls \<Longrightarrow> str_includes (unlines ls) l"
proof -
  assume "l \<in> set ls"
  then obtain ps ss where "ls = ps @ l # ss" by (auto simp: in_set_conv_decomp)
  then have "unlines ls = unlines ps @ l @ (CHR 0x0A # unlines ss)" by (simp add: unlines_def)
  then show ?thesis unfolding includes_iff_factor by blast
qed

lemma application_port_rule_8080_in_group: "sublist (application_port_rule 8080) main_security_group"
  by (simp add: application_port_rule_def show_nat_eval main_security_group_def sublist_Cons_right)

lemma main_includes_rule_8080:
  "str_includes (generateMainTerraform this w config) (unlines (application_port_rule 8080))"
proof -
  have "sublist (application_port_rule 8080)
          ((main_instance_head @ [generateUserDataScript this w config] @ main_instance_tail
            @ main_network) @ main_security_group @ main_elastic_ip)"
    using application_port_rule_8080_in_group
    by (meson sublist_append)
  then show ?thesis
    by (simp add: generateMainTerraform_def Let_def sublist_unlines)
qed

lemma security_group_from_ports:
  "filter (prefix ''    from_port'') main_security_group =
     [''    from_port   = 22'', ''    from_port   = 80'', ''    from_port   = 443'',
      ''    from_port   = 8080'', ''    from_port   = 0'']"
  by (simp add: main_security_group_def)

lemma outputs_url_line:
  \<open>''  value       = "http://${aws_eip.app_eip.public_ip}:'' @ show_nat (or_num (dc_appPort config) 8080) @ ''"''
     \<in> set (outputs_lines config)\<close>
  by (simp add: outputs_lines_def Let_def)

text \<open>
  Claim C7. The four generated texts and the bootstrap script are functions of the
  configuration alone: whatever the service object and the ambient state (clock, random
  source, environment) of two calls, the same configuration gives the same bytes.
\<close>

theorem generateTerraformConfig_deterministic:
  "generateTerraformConfig this w config = generateTerraformConfig this' w' config
   \<and> generateUserDataScript this w config = generateUserDataScript this' w' config"
  by (simp add: generateTerraformConfig_def generateMainTerraform_def generateVariablesTerraform_def
      generateOutputsTerraform_def generateProvidersTerraform_def generateUserDataScript_def)

text \<open>
  Claim C5 at the configuration assembled for the Flask application with port 5000.
  For every configuration the main template contains the application-port ingress block
  for port 8080, and the ports opened by the security group are 22, 80, 443 and 8080
  (egress from port 0): the block is literal text. For the sample configuration the
  same generator prints the configured port 5000 in the \<open>application_url\<close> output
  and in the bootstrap script that starts the application.
\<close>

theorem security_group_port_fixed:
  \<open>str_includes (generateMainTerraform this w config) (unlines (application_port_rule 8080))
   \<and> filter (prefix ''    from_port'') main_security_group =
       [''    from_port   = 22'', ''    from_port   = 80'', ''    from_port   = 443'',
        ''    from_port   = 8080'', ''    from_port   = 0'']
   \<and> generateDeploymentConfig flask_record_5000 sample_id = Inr flask_config_5000
   \<and> dc_appPort flask_config_5000 = Some 5000
   \<and> str_includes (generateOutputsTerraform sample_service sample_world flask_config_5000)
        ''  value       = "http://${aws_eip.app_eip.public_ip}:5000"''
   \<and> str_includes (generateUserDataScript sample_service sample_world flask_config_5000)
        ''    app.run(host="0.0.0.0", port=5000, debug=False)''\<close>
proof (intro conjI)
  show "str_includes (generateMainTerraform this w config) (unlines (application_port_rule 8080))"
    by (rule main_includes_rule_8080)
  show "filter (prefix ''    from_port'') main_security_group =
       [''    from_port   = 22'', ''    from_port   = 80'', ''    from_port   = 443'',
        ''    from_port   = 8080'', ''    from_port   = 0'']"
    by (rule security_group_from_ports)
  show "generateDeploymentConfig flask_record_5000 sample_id = Inr flask_config_5000"
    by (rule config_of_flask_record_5000)
  show "dc_appPort flask_config_5000 = Some 5000"
    by (simp add: flask_config_5000_def)
  have port: "show_nat (or_num (dc_appPort flask_config_5000) 8080) = ''5000''"
    by (simp add: flask_config_5000_def or_num_def truthy_num_def show_nat_eval)
  show \<open>str_includes (generateOutputsTerraform sample_service sample_world flask_config_5000)
        ''  value       = "http://${aws_eip.app_eip.public_ip}:5000"''\<close>
    using line_in_unlines [OF outputs_url_line [of flask_config_5000]]
    by (simp add: generateOutputsTerraform_def port)
  have \<open>''    app.run(host="0.0.0.0", port=5000, debug=False)'' \<in> set (user_data_python flask_config_5000)\<close>
    by (simp add: user_data_python_def Let_def port)
  then have \<open>''    app.run(host="0.0.0.0", port=5000, debug=False)''
      \<in> set (user_data_prologue flask_config_5000 @ user_data_python flask_config_5000
             @ user_data_node flask_config_5000 @ user_data_docker flask_config_5000
             @ user_data_epilogue flask_config_5000)\<close>
    by simp
  from line_in_unlines [OF this]
  show \<open>str_includes (generateUserDataScript sample_service sample_world flask_config_5000)
        ''    app.run(host="0.0.0.0", port=5000, debug=False)''\<close>
    by (simp add: generateUserDataScript_def)
qed

end
